theory Spec2Isabelle
  imports Complex_Main
begin

section \<open>safe-expr-eval: tokenizer and recursive-descent evaluator\<close>

text \<open>
  A shallow embedding of \<^verbatim>\<open>src/tokenizer.ts\<close>, \<^verbatim>\<open>src/evaluator.ts\<close> and
  \<^verbatim>\<open>src/parser.ts\<close>. Exceptions are values of the type \<open>error\<close>, the two cursors
  (the tokenizer's \<^verbatim>\<open>position\<close> and the evaluator's \<^verbatim>\<open>currentTokenIndex\<close>) are passed
  and returned explicitly, and every \<^verbatim>\<open>while\<close> loop is a recursive function.

  Scope of the model.
  \<^item> A source string is a \<open>string\<close>: the code units are restricted to the range 0..255.
  \<^item> A JavaScript Number is a \<open>jsnum\<close>: \<open>NaN\<close>, the two infinities, the negative zero and
    the finite values, the latter as exact rationals (\<open>Fin 0\<close> is the positive zero).
    Rounding to 53 bits and overflow are not modelled, so the model agrees with the
    program wherever the exact results are representable doubles.
  \<^item> A runtime value is a Number, a String or a Boolean (the three kinds of the data
    model); \<^verbatim>\<open>null\<close>, \<^verbatim>\<open>undefined\<close> and objects are outside the model.
  \<^item> The variables, constants and functions objects are maps of their own properties;
    names inherited from \<^verbatim>\<open>Object.prototype\<close> are outside the model.
\<close>

subsection \<open>Numbers\<close>

datatype jsnum = NaN | PInf | NInf | NZero | Fin rat

definition is_zero :: "jsnum \<Rightarrow> bool" where
  "is_zero a = (a = NZero \<or> a = Fin 0)"

definition is_inf :: "jsnum \<Rightarrow> bool" where
  "is_inf a = (a = PInf \<or> a = NInf)"

fun rat_of :: "jsnum \<Rightarrow> rat" where
  "rat_of (Fin q) = q"
| "rat_of _ = 0"

fun sign_bit :: "jsnum \<Rightarrow> bool" where
  "sign_bit NInf = True"
| "sign_bit NZero = True"
| "sign_bit (Fin q) = (q < 0)"
| "sign_bit _ = False"

definition signed_inf :: "bool \<Rightarrow> jsnum" where
  "signed_inf negative = (if negative then NInf else PInf)"

definition signed_zero :: "bool \<Rightarrow> jsnum" where
  "signed_zero negative = (if negative then NZero else Fin 0)"

text \<open>The finite value of magnitude \<open>q\<close> and the given sign.\<close>

definition mk_num :: "bool \<Rightarrow> rat \<Rightarrow> jsnum" where
  "mk_num negative q =
     (if q = 0 then signed_zero negative else Fin (if negative then - q else q))"

fun num_neg :: "jsnum \<Rightarrow> jsnum" where
  "num_neg NaN = NaN"
| "num_neg PInf = NInf"
| "num_neg NInf = PInf"
| "num_neg NZero = Fin 0"
| "num_neg (Fin q) = (if q = 0 then NZero else Fin (- q))"

fun num_add :: "jsnum \<Rightarrow> jsnum \<Rightarrow> jsnum" where
  "num_add NaN _ = NaN"
| "num_add _ NaN = NaN"
| "num_add PInf NInf = NaN"
| "num_add NInf PInf = NaN"
| "num_add PInf _ = PInf"
| "num_add _ PInf = PInf"
| "num_add NInf _ = NInf"
| "num_add _ NInf = NInf"
| "num_add NZero b = b"
| "num_add a NZero = a"
| "num_add (Fin a) (Fin b) = Fin (a + b)"

definition num_sub :: "jsnum \<Rightarrow> jsnum \<Rightarrow> jsnum" where
  "num_sub a b = num_add a (num_neg b)"

definition num_mul :: "jsnum \<Rightarrow> jsnum \<Rightarrow> jsnum" where
  "num_mul a b =
     (if a = NaN \<or> b = NaN then NaN
      else if (is_zero a \<and> is_inf b) \<or> (is_inf a \<and> is_zero b) then NaN
      else if is_inf a \<or> is_inf b then signed_inf (sign_bit a \<noteq> sign_bit b)
      else if is_zero a \<or> is_zero b then signed_zero (sign_bit a \<noteq> sign_bit b)
      else Fin (rat_of a * rat_of b))"

definition num_div :: "jsnum \<Rightarrow> jsnum \<Rightarrow> jsnum" where
  "num_div a b =
     (if a = NaN \<or> b = NaN then NaN
      else if (is_inf a \<and> is_inf b) \<or> (is_zero a \<and> is_zero b) then NaN
      else if is_inf a \<or> is_zero b then signed_inf (sign_bit a \<noteq> sign_bit b)
      else if is_inf b \<or> is_zero a then signed_zero (sign_bit a \<noteq> sign_bit b)
      else Fin (rat_of a / rat_of b))"

text \<open>The integer part of a rational, rounded toward zero.\<close>

definition trunc_rat :: "rat \<Rightarrow> rat" where
  "trunc_rat q = (if 0 \<le> q then of_int \<lfloor>q\<rfloor> else - of_int \<lfloor>- q\<rfloor>)"

text \<open>The remainder operator \<^verbatim>\<open>%\<close>: the result has the sign of the dividend.\<close>

definition num_mod :: "jsnum \<Rightarrow> jsnum \<Rightarrow> jsnum" where
  "num_mod a b =
     (if a = NaN \<or> b = NaN then NaN
      else if is_inf a \<or> is_zero b then NaN
      else if is_inf b \<or> is_zero a then a
      else mk_num (sign_bit a)
             \<bar>rat_of a - rat_of b * trunc_rat (rat_of a / rat_of b)\<bar>)"

text \<open>Equality of Numbers (\<^verbatim>\<open>===\<close> on two Numbers): \<open>NaN\<close> equals nothing, the zeros are equal.\<close>

definition num_eq :: "jsnum \<Rightarrow> jsnum \<Rightarrow> bool" where
  "num_eq a b =
     (if a = NaN \<or> b = NaN then False
      else if is_zero a \<and> is_zero b then True
      else a = b)"

fun num_lt :: "jsnum \<Rightarrow> jsnum \<Rightarrow> bool" where
  "num_lt NaN _ = False"
| "num_lt _ NaN = False"
| "num_lt PInf _ = False"
| "num_lt _ NInf = False"
| "num_lt NInf _ = True"
| "num_lt _ PInf = True"
| "num_lt a b = (rat_of a < rat_of b)"

definition num_le :: "jsnum \<Rightarrow> jsnum \<Rightarrow> bool" where
  "num_le a b = (num_lt a b \<or> num_eq a b)"

definition isNaN :: "jsnum \<Rightarrow> bool" where
  "isNaN a = (a = NaN)"

subsection \<open>Characters and numeric literals\<close>

text \<open>The character classes of the regular expressions in the tokenizer.\<close>

definition is_digit :: "char \<Rightarrow> bool" where
  "is_digit c = (c \<in> set ''0123456789'')"

definition is_number_char :: "char \<Rightarrow> bool" where
  "is_number_char c = (c \<in> set ''0123456789.'')"

definition is_ident_start :: "char \<Rightarrow> bool" where
  "is_ident_start c =
     (c \<in> set ''abcdefghijklmnopqrstuvwxyzABCDEFGHIJKLMNOPQRSTUVWXYZ_'')"

definition is_ident_char :: "char \<Rightarrow> bool" where
  "is_ident_char c =
     (c \<in> set ''abcdefghijklmnopqrstuvwxyzABCDEFGHIJKLMNOPQRSTUVWXYZ0123456789_.'')"

definition is_operator_char :: "char \<Rightarrow> bool" where
  "is_operator_char c = (c \<in> set ''+-*/%<>=!'')"

text \<open>
  White space as \<^verbatim>\<open>\s\<close>, \<^verbatim>\<open>String.prototype.trim\<close> and the numeric conversions see it,
  on the code units below 256: TAB, LF, VT, FF, CR, SPACE and NBSP.
\<close>

definition is_space :: "char \<Rightarrow> bool" where
  "is_space c = (c \<in> set [CHR 0x09, CHR 0x0A, CHR 0x0B, CHR 0x0C, CHR 0x0D, CHR 0x20, CHR 0xA0])"

definition trim_start :: "string \<Rightarrow> string" where
  "trim_start s = dropWhile is_space s"

definition trim :: "string \<Rightarrow> string" where
  "trim s = rev (dropWhile is_space (rev (dropWhile is_space s)))"

definition digit_val :: "char \<Rightarrow> nat" where
  "digit_val c =
     (if c \<in> set ''0123456789'' then of_char c - 48
      else if c \<in> set ''abcdef'' then of_char c - 87
      else of_char c - 55)"

text \<open>The value of a digit string in a given base, most significant digit first.\<close>

definition digits_val :: "nat \<Rightarrow> string \<Rightarrow> nat" where
  "digits_val base ds = foldl (\<lambda>acc c. acc * base + digit_val c) 0 ds"

definition starts_with :: "string \<Rightarrow> string \<Rightarrow> bool" where
  "starts_with p s = (take (length p) s = p)"

text \<open>
  The optional exponent part of a decimal literal: \<^verbatim>\<open>e\<close> or \<^verbatim>\<open>E\<close>, an optional sign and at
  least one digit. Returns the exponent and the rest of the string; an incomplete
  exponent part is not consumed.
\<close>

definition exponent_part :: "string \<Rightarrow> int \<times> string" where
  "exponent_part s =
     (case s of
        [] \<Rightarrow> (0, s)
      | c # r \<Rightarrow>
          if c = CHR ''e'' \<or> c = CHR ''E'' then
            (let negative = starts_with ''-'' r;
                 r1 = (if starts_with ''-'' r \<or> starts_with ''+'' r then tl r else r);
                 ds = takeWhile is_digit r1
             in if ds = [] then (0, s)
                else ((if negative then - int (digits_val 10 ds) else int (digits_val 10 ds)),
                      dropWhile is_digit r1))
          else (0, s))"

definition pow10 :: "int \<Rightarrow> rat" where
  "pow10 e = (if 0 \<le> e then 10 ^ nat e else 1 / 10 ^ nat (- e))"

text \<open>
  The longest prefix of \<open>s\<close> that is an unsigned decimal literal
  (\<^verbatim>\<open>Infinity\<close>, \<^verbatim>\<open>digits\<close>, \<^verbatim>\<open>digits.\<close>, \<^verbatim>\<open>digits.digits\<close>, \<^verbatim>\<open>.digits\<close>, each of the last four
  with an optional exponent part), as a Number of the given sign, and the rest of \<open>s\<close>;
  \<open>None\<close> when no prefix is one.
\<close>

definition unsigned_decimal :: "bool \<Rightarrow> string \<Rightarrow> (jsnum \<times> string) option" where
  "unsigned_decimal negative s =
     (if starts_with ''Infinity'' s then Some (signed_inf negative, drop 8 s)
      else
        (let ip = takeWhile is_digit s;
             r1 = dropWhile is_digit s;
             dot = starts_with ''.'' r1;
             fp = (if dot then takeWhile is_digit (tl r1) else []);
             r2 = (if dot then dropWhile is_digit (tl r1) else r1)
         in if ip = [] \<and> fp = [] then None
            else
              (let (e, r3) = exponent_part r2
               in Some (mk_num negative
                          (of_nat (digits_val 10 (ip @ fp)) / 10 ^ length fp * pow10 e),
                        r3))))"

definition decimal_prefix :: "string \<Rightarrow> (jsnum \<times> string) option" where
  "decimal_prefix s =
     (if starts_with ''-'' s then unsigned_decimal True (tl s)
      else if starts_with ''+'' s then unsigned_decimal False (tl s)
      else unsigned_decimal False s)"

text \<open>
  The built-in \<^verbatim>\<open>parseFloat\<close>: leading white space is skipped, the longest prefix that is
  a decimal literal is converted, and \<open>NaN\<close> is the result when there is none.
\<close>

definition parseFloat :: "string \<Rightarrow> jsnum" where
  "parseFloat s =
     (case decimal_prefix (trim_start s) of
        None \<Rightarrow> NaN
      | Some (n, _) \<Rightarrow> n)"

text \<open>
  The conversion of a String to a Number that loose equality applies: the whole
  trimmed string has to be a numeric literal (decimal, or hexadecimal, octal or binary
  with its prefix), the empty string is 0, and anything else is \<open>NaN\<close>.
\<close>

definition radix_literal :: "nat \<Rightarrow> string \<Rightarrow> string \<Rightarrow> jsnum" where
  "radix_literal base allowed ds =
     (if ds \<noteq> [] \<and> (\<forall>c \<in> set ds. c \<in> set allowed)
      then Fin (of_nat (digits_val base ds)) else NaN)"

definition StringToNumber :: "string \<Rightarrow> jsnum" where
  "StringToNumber s =
     (let t = trim s
      in if t = [] then Fin 0
         else if starts_with ''0x'' t \<or> starts_with ''0X'' t
           then radix_literal 16 ''0123456789abcdefABCDEF'' (drop 2 t)
         else if starts_with ''0o'' t \<or> starts_with ''0O'' t
           then radix_literal 8 ''01234567'' (drop 2 t)
         else if starts_with ''0b'' t \<or> starts_with ''0B'' t
           then radix_literal 2 ''01'' (drop 2 t)
         else
           (case decimal_prefix t of
              None \<Rightarrow> NaN
            | Some (n, r) \<Rightarrow> if r = [] then n else NaN))"

subsection \<open>Values and tokens\<close>

text \<open>The payload of a token and the result of an evaluation: \<^verbatim>\<open>string | number | boolean\<close>.\<close>

datatype jsval = VNum jsnum | VStr string | VBool bool

datatype token_type =
  NUMBER | STRING | BOOLEAN | IDENTIFIER | OPERATOR | PAREN_OPEN | PAREN_CLOSE
  | FUNCTION | COMMA | EOF

text \<open>
  The interface \<^verbatim>\<open>Token\<close>. The field \<^verbatim>\<open>value\<close> of the source is \<open>val\<close> here,
  \<^verbatim>\<open>value\<close> being a reserved word of the theory language.
\<close>

record token =
  type :: token_type
  val :: jsval
  position :: nat

text \<open>The unary minus of JavaScript on a value.\<close>

fun js_negate :: "jsval \<Rightarrow> jsval" where
  "js_negate (VNum n) = VNum (num_neg n)"
| "js_negate (VStr s) = VNum (num_neg (StringToNumber s))"
| "js_negate (VBool b) = VNum (num_neg (Fin (if b then 1 else 0)))"

subsection \<open>Tokenizer\<close>

text \<open>
  The class \<^verbatim>\<open>Tokenizer\<close> holds the trimmed input, the cursor \<^verbatim>\<open>position\<close> and the field
  \<^verbatim>\<open>currentChar\<close>, which the constructor and \<^verbatim>\<open>advance\<close> keep equal to
  \<^verbatim>\<open>input[position]\<close>, or \<^verbatim>\<open>null\<close> past the end. The model passes the input and the
  position and computes \<open>currentChar\<close> from them; \<^verbatim>\<open>advance()\<close> is \<open>pos + 1\<close>.
\<close>

definition currentChar :: "string \<Rightarrow> nat \<Rightarrow> char option" where
  "currentChar input pos = (if pos < length input then Some (input ! pos) else None)"

definition peek :: "string \<Rightarrow> nat \<Rightarrow> nat \<Rightarrow> char option" where
  "peek input pos offset =
     (let peekPos = pos + offset
      in if peekPos < length input then Some (input ! peekPos) else None)"

function skipWhitespace :: "string \<Rightarrow> nat \<Rightarrow> nat" where
  "skipWhitespace input pos =
     (case currentChar input pos of
        None \<Rightarrow> pos
      | Some c \<Rightarrow> if is_space c then skipWhitespace input (pos + 1) else pos)"
  by pat_completeness auto
termination
  by (relation "measure (\<lambda>(input, pos). length input - pos)")
     (auto simp: currentChar_def split: if_splits)

text \<open>The loop of \<^verbatim>\<open>number()\<close>: the characters of \<^verbatim>\<open>[0-9.]\<close> are appended to \<^verbatim>\<open>numStr\<close>.\<close>

function number_loop :: "string \<Rightarrow> nat \<Rightarrow> string \<Rightarrow> string \<times> nat" where
  "number_loop input pos numStr =
     (case currentChar input pos of
        None \<Rightarrow> (numStr, pos)
      | Some c \<Rightarrow>
          if is_number_char c then number_loop input (pos + 1) (numStr @ [c])
          else (numStr, pos))"
  by pat_completeness auto
termination
  by (relation "measure (\<lambda>(input, pos, numStr). length input - pos)")
     (auto simp: currentChar_def split: if_splits)

definition number :: "string \<Rightarrow> nat \<Rightarrow> token \<times> nat" where
  "number input pos =
     (let startPos = pos;
          (numStr, pos') = number_loop input pos []
      in (\<lparr>type = NUMBER, val = VNum (parseFloat numStr), position = startPos\<rparr>, pos'))"

text \<open>
  \<^verbatim>\<open>string()\<close> and \<^verbatim>\<open>identifier()\<close> are \<open>string_token\<close> and \<open>identifier_token\<close> here
  (\<open>string\<close> is a type of the logic and \<open>identifier\<close> a reserved word).
  The loop of \<^verbatim>\<open>string()\<close>: up to the closing quote or the end of the input; a backslash
  escapes the next character, which is appended as it is.
\<close>

function string_loop :: "string \<Rightarrow> nat \<Rightarrow> char option \<Rightarrow> string \<Rightarrow> string \<times> nat" where
  "string_loop input pos quote strValue =
     (case currentChar input pos of
        None \<Rightarrow> (strValue, pos)
      | Some c \<Rightarrow>
          if Some c = quote then (strValue, pos)
          else if c = CHR 0x5C then
            (case currentChar input (pos + 1) of
               None \<Rightarrow> string_loop input (pos + 1) quote strValue
             | Some d \<Rightarrow> string_loop input (pos + 1 + 1) quote (strValue @ [d]))
          else string_loop input (pos + 1) quote (strValue @ [c]))"
  by pat_completeness auto
termination
  by (relation "measure (\<lambda>(input, pos, quote, strValue). length input - pos)")
     (auto simp: currentChar_def split: if_splits)

definition string_token :: "string \<Rightarrow> nat \<Rightarrow> token \<times> nat" where
  "string_token input pos =
     (let startPos = pos;
          quote = currentChar input pos;
          (strValue, pos1) = string_loop input (pos + 1) quote [];
          pos2 = (if currentChar input pos1 = quote then pos1 + 1 else pos1)
      in (\<lparr>type = STRING, val = VStr strValue, position = startPos\<rparr>, pos2))"

function identifier_loop :: "string \<Rightarrow> nat \<Rightarrow> string \<Rightarrow> string \<times> nat" where
  "identifier_loop input pos idStr =
     (case currentChar input pos of
        None \<Rightarrow> (idStr, pos)
      | Some c \<Rightarrow>
          if is_ident_char c then identifier_loop input (pos + 1) (idStr @ [c])
          else (idStr, pos))"
  by pat_completeness auto
termination
  by (relation "measure (\<lambda>(input, pos, idStr). length input - pos)")
     (auto simp: currentChar_def split: if_splits)

definition identifier_token :: "string \<Rightarrow> nat \<Rightarrow> token \<times> nat" where
  "identifier_token input pos =
     (let startPos = pos;
          (idStr, pos') = identifier_loop input pos []
      in if idStr = ''true'' \<or> idStr = ''false''
         then (\<lparr>type = BOOLEAN, val = VBool (idStr = ''true''), position = startPos\<rparr>, pos')
         else (\<lparr>type = IDENTIFIER, val = VStr idStr, position = startPos\<rparr>, pos'))"

text \<open>
  \<^verbatim>\<open>operator()\<close> reads \<^verbatim>\<open>this.currentChar!\<close>; its only caller has tested that character, and
  the model receives it as the argument \<open>c\<close>.
\<close>

definition operator :: "string \<Rightarrow> nat \<Rightarrow> char \<Rightarrow> token \<times> nat" where
  "operator input pos c =
     (let startPos = pos;
          nextChar = peek input pos 1
      in case nextChar of
           None \<Rightarrow> (\<lparr>type = OPERATOR, val = VStr [c], position = startPos\<rparr>, pos + 1)
         | Some n \<Rightarrow>
             if (c = CHR ''='' \<and> n = CHR ''='') \<or> (c = CHR ''!'' \<and> n = CHR ''='')
                \<or> (c = CHR ''>'' \<and> n = CHR ''='') \<or> (c = CHR ''<'' \<and> n = CHR ''='')
             then (\<lparr>type = OPERATOR, val = VStr [c, n], position = startPos\<rparr>, pos + 1 + 1)
             else (\<lparr>type = OPERATOR, val = VStr [c], position = startPos\<rparr>, pos + 1))"

text \<open>
  The test of the negative-number branch on the tokens produced so far: there is none,
  or the last one is an open parenthesis, an operator or a comma.
\<close>

definition negative_context :: "token list \<Rightarrow> bool" where
  "negative_context tokens =
     (length tokens = 0
      \<or> type (tokens ! (length tokens - 1)) = PAREN_OPEN
      \<or> type (tokens ! (length tokens - 1)) = OPERATOR
      \<or> type (tokens ! (length tokens - 1)) = COMMA)"

definition next_is_digit :: "string \<Rightarrow> nat \<Rightarrow> bool" where
  "next_is_digit input pos = (case peek input pos 1 of None \<Rightarrow> False | Some d \<Rightarrow> is_digit d)"

declare skipWhitespace.simps [simp del] number_loop.simps [simp del]
  string_loop.simps [simp del] identifier_loop.simps [simp del]

text \<open>
  Every scanning function leaves the cursor where it was or further right, and the
  branches of the main loop move it; the main loop terminates on that ground.
\<close>

lemma currentChar_Some_lt: "currentChar input pos = Some c \<Longrightarrow> pos < length input"
  by (simp add: currentChar_def split: if_splits)

lemma skipWhitespace_ge: "pos \<le> skipWhitespace input pos"
proof (induction input pos rule: skipWhitespace.induct)
  case (1 input pos)
  show ?case
  proof (cases "currentChar input pos")
    case None
    then show ?thesis by (subst skipWhitespace.simps) simp
  next
    case (Some c)
    with "1.IH" [of c] show ?thesis
      by (subst skipWhitespace.simps) auto
  qed
qed

lemma number_loop_ge: "pos \<le> snd (number_loop input pos numStr)"
proof (induction input pos numStr rule: number_loop.induct)
  case (1 input pos numStr)
  show ?case
  proof (cases "currentChar input pos")
    case None
    then show ?thesis by (subst number_loop.simps) simp
  next
    case (Some c)
    with "1.IH" [of c] show ?thesis
      by (subst number_loop.simps) auto
  qed
qed

lemma number_loop_gt:
  assumes "currentChar input pos = Some c" "is_number_char c"
  shows "pos < snd (number_loop input pos numStr)"
proof -
  have "number_loop input pos numStr = number_loop input (pos + 1) (numStr @ [c])"
    using assms by (subst number_loop.simps) simp
  moreover have "pos + 1 \<le> snd (number_loop input (pos + 1) (numStr @ [c]))"
    by (rule number_loop_ge)
  ultimately show ?thesis by simp
qed

lemma is_digit_number_char: "is_digit c \<Longrightarrow> is_number_char c"
  by (auto simp: is_digit_def is_number_char_def)

lemma number_gt:
  assumes "currentChar input pos = Some c" "is_digit c"
  shows "pos < snd (number input pos)"
proof (cases "number_loop input pos []")
  case (Pair numStr pos')
  with number_loop_gt [OF assms(1) is_digit_number_char [OF assms(2)], of "[]"]
  show ?thesis by (simp add: number_def)
qed

lemma number_ge: "pos \<le> snd (number input pos)"
proof (cases "number_loop input pos []")
  case (Pair numStr pos')
  with number_loop_ge [of pos input "[]"] show ?thesis by (simp add: number_def)
qed

lemma string_loop_ge: "pos \<le> snd (string_loop input pos quote strValue)"
proof (induction input pos quote strValue rule: string_loop.induct)
  case (1 input pos quote strValue)
  show ?case
  proof (cases "currentChar input pos")
    case None
    then show ?thesis by (subst string_loop.simps) simp
  next
    case (Some c)
    show ?thesis
    proof (cases "currentChar input (pos + 1)")
      case None
      with Some "1.IH"(1) [of c] "1.IH"(3) [of c] show ?thesis
        by (subst string_loop.simps) auto
    next
      case (Some d)
      with \<open>currentChar input pos = Some c\<close> "1.IH"(2) [of c d] "1.IH"(3) [of c] show ?thesis
        by (subst string_loop.simps) auto
    qed
  qed
qed

lemma string_token_gt: "pos < snd (string_token input pos)"
  using string_loop_ge [of "pos + 1" input "currentChar input pos" "[]"]
  by (auto simp: string_token_def Let_def split: prod.splits)

lemma identifier_loop_ge: "pos \<le> snd (identifier_loop input pos idStr)"
proof (induction input pos idStr rule: identifier_loop.induct)
  case (1 input pos idStr)
  show ?case
  proof (cases "currentChar input pos")
    case None
    then show ?thesis by (subst identifier_loop.simps) simp
  next
    case (Some c)
    with "1.IH" [of c] show ?thesis
      by (subst identifier_loop.simps) auto
  qed
qed

lemma is_ident_start_char: "is_ident_start c \<Longrightarrow> is_ident_char c"
  by (auto simp: is_ident_start_def is_ident_char_def)

lemma identifier_token_gt:
  assumes "currentChar input pos = Some c" "is_ident_start c"
  shows "pos < snd (identifier_token input pos)"
proof -
  have "identifier_loop input pos [] = identifier_loop input (pos + 1) ([] @ [c])"
    using assms is_ident_start_char by (subst identifier_loop.simps) simp
  moreover have "pos + 1 \<le> snd (identifier_loop input (pos + 1) ([] @ [c]))"
    by (rule identifier_loop_ge)
  ultimately show ?thesis
    by (auto simp: identifier_token_def Let_def split: prod.splits)
qed

lemma operator_gt: "pos < snd (operator input pos c)"
  by (auto simp: operator_def Let_def split: option.splits)

lemma loop_measure:
  assumes "currentChar input pos = Some a" "skipWhitespace input pos < y"
  shows "length input - y < length input - pos"
  using assms skipWhitespace_ge [of pos input] by (auto dest!: currentChar_Some_lt)

lemma number_advances:
  "(tok, y) = number input p \<Longrightarrow> currentChar input p = Some c \<Longrightarrow> is_digit c \<Longrightarrow> p < y"
  using number_gt [of input p c] by (cases "number input p") simp

lemma number_advances_Suc: "(tok, y) = number input (Suc p) \<Longrightarrow> p < y"
  using number_ge [of "Suc p" input] by (cases "number input (Suc p)") simp

lemma string_token_advances: "(tok, y) = string_token input p \<Longrightarrow> p < y"
  using string_token_gt [of p input] by (cases "string_token input p") simp

lemma identifier_token_advances:
  "(tok, y) = identifier_token input p \<Longrightarrow> currentChar input p = Some c
     \<Longrightarrow> is_ident_start c \<Longrightarrow> p < y"
  using identifier_token_gt [of input p c] by (cases "identifier_token input p") simp

lemma operator_advances: "(tok, y) = operator input p c \<Longrightarrow> p < y"
  using operator_gt [of p input c] by (cases "operator input p c") simp

function tokenize_loop ::
  "string \<Rightarrow> nat \<Rightarrow> token list \<Rightarrow> (nat \<times> char) list
     \<Rightarrow> nat \<times> token list \<times> (nat \<times> char) list" where
  "tokenize_loop input pos tokens warnings =
     (case currentChar input pos of
        None \<Rightarrow> (pos, tokens, warnings)
      | Some _ \<Rightarrow>
          (let pos1 = skipWhitespace input pos
           in case currentChar input pos1 of
                None \<Rightarrow> (pos1, tokens, warnings)
              | Some c \<Rightarrow>
                  if is_digit c then
                    (let (tok, pos2) = number input pos1
                     in tokenize_loop input pos2 (tokens @ [tok]) warnings)
                  else if c = CHR ''-'' \<and> next_is_digit input pos1 \<and> negative_context tokens then
                    (let (numToken, pos2) = number input (pos1 + 1)
                     in tokenize_loop input pos2
                          (tokens @ [numToken\<lparr>val := js_negate (val numToken)\<rparr>]) warnings)
                  else if c = CHR 0x22 \<or> c = CHR 0x27 then
                    (let (tok, pos2) = string_token input pos1
                     in tokenize_loop input pos2 (tokens @ [tok]) warnings)
                  else if is_ident_start c then
                    (let (tok, pos2) = identifier_token input pos1
                     in tokenize_loop input pos2 (tokens @ [tok]) warnings)
                  else if c = CHR ''('' then
                    tokenize_loop input (pos1 + 1)
                      (tokens @ [\<lparr>type = PAREN_OPEN, val = VStr ''('', position = pos1\<rparr>]) warnings
                  else if c = CHR '')'' then
                    tokenize_loop input (pos1 + 1)
                      (tokens @ [\<lparr>type = PAREN_CLOSE, val = VStr '')'', position = pos1\<rparr>]) warnings
                  else if c = CHR '','' then
                    tokenize_loop input (pos1 + 1)
                      (tokens @ [\<lparr>type = COMMA, val = VStr '','', position = pos1\<rparr>]) warnings
                  else if is_operator_char c then
                    (let (tok, pos2) = operator input pos1 c
                     in tokenize_loop input pos2 (tokens @ [tok]) warnings)
                  else tokenize_loop input (pos1 + 1) tokens (warnings @ [(pos1, c)])))"
  by pat_completeness auto
termination
  apply (relation "measure (\<lambda>(input, pos, tokens, warnings). length input - pos)")
           apply simp_all
          apply (erule loop_measure, erule number_advances, assumption+)
         apply (erule loop_measure, erule number_advances_Suc)
        apply (erule loop_measure, erule string_token_advances)
       apply (erule loop_measure, erule identifier_token_advances, assumption+)
      apply (erule loop_measure, simp)
     apply (erule loop_measure, simp)
    apply (erule loop_measure, simp)
   apply (erule loop_measure, erule operator_advances)
  apply (erule loop_measure, simp)
  done


declare tokenize_loop.simps [simp del]

text \<open>
  \<^verbatim>\<open>new Tokenizer(source).tokenize()\<close>: the constructor trims the source, the loop scans
  from position 0 with no token, and the end-of-input token is appended. The calls of
  \<^verbatim>\<open>console.warn\<close> are returned as the list of the positions and characters skipped.
\<close>

definition tokenize_run :: "string \<Rightarrow> token list \<times> (nat \<times> char) list" where
  "tokenize_run source =
     (let input = trim source;
          (pos, tokens, warnings) = tokenize_loop input 0 [] []
      in (tokens @ [\<lparr>type = EOF, val = VStr [], position = pos\<rparr>], warnings))"

definition tokenize :: "string \<Rightarrow> token list" where
  "tokenize source = fst (tokenize_run source)"

subsection \<open>Evaluator\<close>

text \<open>
  The exceptions of the evaluator: the three \<^verbatim>\<open>Error\<close>s it throws by name, the
  \<^verbatim>\<open>Unknown operator\<close> of \<^verbatim>\<open>compare\<close>, the \<^verbatim>\<open>TypeError\<close> of reading \<^verbatim>\<open>.type\<close> of
  \<^verbatim>\<open>undefined\<close> when the cursor is past the last token, whatever a registered function
  throws, and the error in which the facade wraps any of them together with the
  expression text. \<open>NotAString\<close> marks an \<^verbatim>\<open>IDENTIFIER\<close> token whose payload is not a
  String, against the cast \<^verbatim>\<open>token.value as string\<close>: the tokenizer never produces one,
  and the model does not follow the program there.
\<close>

datatype error =
  UndefinedVariable string
  | UndefinedFunction string
  | UnexpectedToken token_type nat
  | UnknownOperator jsval
  | TypeError
  | Thrown string
  | NotAString jsval
  | EvaluationError string error

text \<open>A registered function: called with the evaluated arguments, it returns or throws.\<close>

type_synonym jsfun = "jsval list \<Rightarrow> error + jsval"

fun toBool :: "jsval \<Rightarrow> bool" where
  "toBool (VBool b) = b"
| "toBool (VNum n) = (\<not> num_eq n (Fin 0))"
| "toBool (VStr s) = (length s > 0)"

fun toNumber :: "jsval \<Rightarrow> jsnum" where
  "toNumber (VNum n) = n"
| "toNumber (VBool b) = (if b then Fin 1 else Fin 0)"
| "toNumber (VStr s) = (let num = parseFloat s in if isNaN num then Fin 0 else num)"

text \<open>
  Loose equality \<^verbatim>\<open>==\<close> on the three kinds of values: values of one kind are compared
  as they are, a Boolean is converted to 1 or 0, and a String compared with a Number
  is converted by \<open>StringToNumber\<close>.
\<close>

fun loose_eq :: "jsval \<Rightarrow> jsval \<Rightarrow> bool" where
  "loose_eq (VNum a) (VNum b) = num_eq a b"
| "loose_eq (VStr a) (VStr b) = (a = b)"
| "loose_eq (VBool a) (VBool b) = (a = b)"
| "loose_eq (VNum a) (VStr b) = num_eq a (StringToNumber b)"
| "loose_eq (VStr a) (VNum b) = num_eq (StringToNumber a) b"
| "loose_eq (VBool a) (VNum b) = num_eq (if a then Fin 1 else Fin 0) b"
| "loose_eq (VBool a) (VStr b) = num_eq (if a then Fin 1 else Fin 0) (StringToNumber b)"
| "loose_eq (VNum a) (VBool b) = num_eq a (if b then Fin 1 else Fin 0)"
| "loose_eq (VStr a) (VBool b) = num_eq (StringToNumber a) (if b then Fin 1 else Fin 0)"

text \<open>
  \<^verbatim>\<open>compare\<close>: \<^verbatim>\<open>a > b\<close> on Numbers is \<open>num_lt b a\<close>, and \<^verbatim>\<open>a >= b\<close> is \<open>num_le b a\<close>.
\<close>

definition compare :: "jsval \<Rightarrow> jsval \<Rightarrow> jsval \<Rightarrow> error + bool" where
  "compare left op right =
     (if op = VStr ''=='' then Inr (loose_eq left right)
      else if op = VStr ''!='' then Inr (\<not> loose_eq left right)
      else if op = VStr ''>'' then Inr (num_lt (toNumber right) (toNumber left))
      else if op = VStr ''<'' then Inr (num_lt (toNumber left) (toNumber right))
      else if op = VStr ''>='' then Inr (num_le (toNumber right) (toNumber left))
      else if op = VStr ''<='' then Inr (num_le (toNumber left) (toNumber right))
      else Inl (UnknownOperator op))"

text \<open>
  \<^verbatim>\<open>currentToken()\<close> is \<^verbatim>\<open>this.tokens[this.currentTokenIndex]\<close>; every caller reads a field
  of the result at once, which throws when the index is out of range. \<^verbatim>\<open>consume()\<close> is
  \<open>i + 1\<close> on the cursor.
\<close>

definition currentToken :: "token list \<Rightarrow> nat \<Rightarrow> error + token" where
  "currentToken tokens i = (if i < length tokens then Inr (tokens ! i) else Inl TypeError)"

text \<open>
  The recursive descent. Each method takes the cursor and returns the value with the
  new cursor, or the exception. The \<^verbatim>\<open>while\<close> loops of \<^verbatim>\<open>parseOr\<close>, \<^verbatim>\<open>parseAnd\<close>,
  \<^verbatim>\<open>parseAdditive\<close>, \<^verbatim>\<open>parseMultiplicative\<close> and \<^verbatim>\<open>parseFunctionCall\<close> are \<open>orLoop\<close>,
  \<open>andLoop\<close>, \<open>addLoop\<close>, \<open>mulLoop\<close> and \<open>argsLoop\<close>, with the loop variable \<^verbatim>\<open>left\<close>
  (or \<^verbatim>\<open>args\<close>) as an argument.
\<close>

function
  parseOr :: "token list \<Rightarrow> (string \<rightharpoonup> jsval) \<Rightarrow> (string \<rightharpoonup> jsfun) \<Rightarrow> nat \<Rightarrow> error + jsval \<times> nat"
  and orLoop :: "token list \<Rightarrow> (string \<rightharpoonup> jsval) \<Rightarrow> (string \<rightharpoonup> jsfun) \<Rightarrow> jsval \<Rightarrow> nat \<Rightarrow> error + jsval \<times> nat"
  and parseAnd :: "token list \<Rightarrow> (string \<rightharpoonup> jsval) \<Rightarrow> (string \<rightharpoonup> jsfun) \<Rightarrow> nat \<Rightarrow> error + jsval \<times> nat"
  and andLoop :: "token list \<Rightarrow> (string \<rightharpoonup> jsval) \<Rightarrow> (string \<rightharpoonup> jsfun) \<Rightarrow> jsval \<Rightarrow> nat \<Rightarrow> error + jsval \<times> nat"
  and parseNot :: "token list \<Rightarrow> (string \<rightharpoonup> jsval) \<Rightarrow> (string \<rightharpoonup> jsfun) \<Rightarrow> nat \<Rightarrow> error + jsval \<times> nat"
  and parseComparison :: "token list \<Rightarrow> (string \<rightharpoonup> jsval) \<Rightarrow> (string \<rightharpoonup> jsfun) \<Rightarrow> nat \<Rightarrow> error + jsval \<times> nat"
  and parseAdditive :: "token list \<Rightarrow> (string \<rightharpoonup> jsval) \<Rightarrow> (string \<rightharpoonup> jsfun) \<Rightarrow> nat \<Rightarrow> error + jsval \<times> nat"
  and addLoop :: "token list \<Rightarrow> (string \<rightharpoonup> jsval) \<Rightarrow> (string \<rightharpoonup> jsfun) \<Rightarrow> jsval \<Rightarrow> nat \<Rightarrow> error + jsval \<times> nat"
  and parseMultiplicative :: "token list \<Rightarrow> (string \<rightharpoonup> jsval) \<Rightarrow> (string \<rightharpoonup> jsfun) \<Rightarrow> nat \<Rightarrow> error + jsval \<times> nat"
  and mulLoop :: "token list \<Rightarrow> (string \<rightharpoonup> jsval) \<Rightarrow> (string \<rightharpoonup> jsfun) \<Rightarrow> jsval \<Rightarrow> nat \<Rightarrow> error + jsval \<times> nat"
  and parsePrimary :: "token list \<Rightarrow> (string \<rightharpoonup> jsval) \<Rightarrow> (string \<rightharpoonup> jsfun) \<Rightarrow> nat \<Rightarrow> error + jsval \<times> nat"
  and parseFunctionCall :: "token list \<Rightarrow> (string \<rightharpoonup> jsval) \<Rightarrow> (string \<rightharpoonup> jsfun) \<Rightarrow> string \<Rightarrow> nat \<Rightarrow> error + jsval \<times> nat"
  and argsLoop :: "token list \<Rightarrow> (string \<rightharpoonup> jsval) \<Rightarrow> (string \<rightharpoonup> jsfun) \<Rightarrow> jsval list \<Rightarrow> nat \<Rightarrow> error + jsval list \<times> nat"
where
  "parseOr tokens variables functions i =
     (case parseAnd tokens variables functions i of
        Inl e \<Rightarrow> Inl e
      | Inr (left, j) \<Rightarrow> orLoop tokens variables functions left j)"
| "orLoop tokens variables functions left i =
     (case currentToken tokens i of
        Inl e \<Rightarrow> Inl e
      | Inr t \<Rightarrow>
          if type t = IDENTIFIER \<and> val t = VStr ''or'' then
            (case parseAnd tokens variables functions (i + 1) of
               Inl e \<Rightarrow> Inl e
             | Inr (right, j) \<Rightarrow>
                 orLoop tokens variables functions (VBool (toBool left \<or> toBool right)) j)
          else Inr (left, i))"
| "parseAnd tokens variables functions i =
     (case parseNot tokens variables functions i of
        Inl e \<Rightarrow> Inl e
      | Inr (left, j) \<Rightarrow> andLoop tokens variables functions left j)"
| "andLoop tokens variables functions left i =
     (case currentToken tokens i of
        Inl e \<Rightarrow> Inl e
      | Inr t \<Rightarrow>
          if type t = IDENTIFIER \<and> val t = VStr ''and'' then
            (case parseNot tokens variables functions (i + 1) of
               Inl e \<Rightarrow> Inl e
             | Inr (right, j) \<Rightarrow>
                 andLoop tokens variables functions (VBool (toBool left \<and> toBool right)) j)
          else Inr (left, i))"
| "parseNot tokens variables functions i =
     (case currentToken tokens i of
        Inl e \<Rightarrow> Inl e
      | Inr t \<Rightarrow>
          if type t = IDENTIFIER \<and> val t = VStr ''not'' then
            (case parseNot tokens variables functions (i + 1) of
               Inl e \<Rightarrow> Inl e
             | Inr (v, j) \<Rightarrow> Inr (VBool (\<not> toBool v), j))
          else parseComparison tokens variables functions i)"
| "parseComparison tokens variables functions i =
     (case parseAdditive tokens variables functions i of
        Inl e \<Rightarrow> Inl e
      | Inr (left, j) \<Rightarrow>
          (case currentToken tokens j of
             Inl e \<Rightarrow> Inl e
           | Inr token \<Rightarrow>
               if type token = OPERATOR
                  \<and> val token \<in> set [VStr ''=='', VStr ''!='', VStr ''>'', VStr ''<'',
                                     VStr ''>='', VStr ''<='']
               then
                 (case parseAdditive tokens variables functions (j + 1) of
                    Inl e \<Rightarrow> Inl e
                  | Inr (right, k) \<Rightarrow>
                      (case compare left (val token) right of
                         Inl e \<Rightarrow> Inl e
                       | Inr b \<Rightarrow> Inr (VBool b, k)))
               else Inr (left, j)))"
| "parseAdditive tokens variables functions i =
     (case parseMultiplicative tokens variables functions i of
        Inl e \<Rightarrow> Inl e
      | Inr (left, j) \<Rightarrow> addLoop tokens variables functions left j)"
| "addLoop tokens variables functions left i =
     (case currentToken tokens i of
        Inl e \<Rightarrow> Inl e
      | Inr t \<Rightarrow>
          if type t = OPERATOR \<and> (val t = VStr ''+'' \<or> val t = VStr ''-'') then
            (case parseMultiplicative tokens variables functions (i + 1) of
               Inl e \<Rightarrow> Inl e
             | Inr (right, j) \<Rightarrow>
                 addLoop tokens variables functions
                   (if val t = VStr ''+''
                    then VNum (num_add (toNumber left) (toNumber right))
                    else VNum (num_sub (toNumber left) (toNumber right))) j)
          else Inr (left, i))"
| "parseMultiplicative tokens variables functions i =
     (case parsePrimary tokens variables functions i of
        Inl e \<Rightarrow> Inl e
      | Inr (left, j) \<Rightarrow> mulLoop tokens variables functions left j)"
| "mulLoop tokens variables functions left i =
     (case currentToken tokens i of
        Inl e \<Rightarrow> Inl e
      | Inr t \<Rightarrow>
          if type t = OPERATOR \<and> val t \<in> set [VStr ''*'', VStr ''/'', VStr ''%''] then
            (case parsePrimary tokens variables functions (i + 1) of
               Inl e \<Rightarrow> Inl e
             | Inr (right, j) \<Rightarrow>
                 mulLoop tokens variables functions
                   (if val t = VStr ''*''
                    then VNum (num_mul (toNumber left) (toNumber right))
                    else if val t = VStr ''/''
                    then VNum (num_div (toNumber left) (toNumber right))
                    else VNum (num_mod (toNumber left) (toNumber right))) j)
          else Inr (left, i))"
| "parsePrimary tokens variables functions i =
     (case currentToken tokens i of
        Inl e \<Rightarrow> Inl e
      | Inr token \<Rightarrow>
          if type token = NUMBER then Inr (val token, i + 1)
          else if type token = STRING then Inr (val token, i + 1)
          else if type token = BOOLEAN then Inr (val token, i + 1)
          else if type token = PAREN_OPEN then
            (case parseOr tokens variables functions (i + 1) of
               Inl e \<Rightarrow> Inl e
             | Inr (v, j) \<Rightarrow>
                 (case currentToken tokens j of
                    Inl e \<Rightarrow> Inl e
                  | Inr t \<Rightarrow> Inr (v, if type t = PAREN_CLOSE then j + 1 else j)))
          else if type token = IDENTIFIER then
            (case val token of
               VStr name \<Rightarrow>
                 (case currentToken tokens (i + 1) of
                    Inl e \<Rightarrow> Inl e
                  | Inr t \<Rightarrow>
                      if type t = PAREN_OPEN
                      then parseFunctionCall tokens variables functions name (i + 1)
                      else
                        (case variables name of
                           Some v \<Rightarrow> Inr (v, i + 1)
                         | None \<Rightarrow> Inl (UndefinedVariable name)))
             | other \<Rightarrow> Inl (NotAString other))
          else Inl (UnexpectedToken (type token) (position token)))"
| "parseFunctionCall tokens variables functions functionName i =
     (case argsLoop tokens variables functions [] (i + 1) of
        Inl e \<Rightarrow> Inl e
      | Inr (args, j) \<Rightarrow>
          (case currentToken tokens j of
             Inl e \<Rightarrow> Inl e
           | Inr t \<Rightarrow>
               (case functions functionName of
                  Some f \<Rightarrow>
                    (case f args of
                       Inl e \<Rightarrow> Inl e
                     | Inr v \<Rightarrow> Inr (v, if type t = PAREN_CLOSE then j + 1 else j))
                | None \<Rightarrow> Inl (UndefinedFunction functionName))))"
| "argsLoop tokens variables functions args i =
     (case currentToken tokens i of
        Inl e \<Rightarrow> Inl e
      | Inr t \<Rightarrow>
          if type t \<noteq> PAREN_CLOSE \<and> type t \<noteq> EOF then
            (case parseOr tokens variables functions i of
               Inl e \<Rightarrow> Inl e
             | Inr (v, j) \<Rightarrow>
                 (case currentToken tokens j of
                    Inl e \<Rightarrow> Inl e
                  | Inr t' \<Rightarrow>
                      argsLoop tokens variables functions (args @ [v])
                        (if type t' = COMMA then j + 1 else j)))
          else Inr (args, i))"
  by pat_completeness auto


text \<open>
  Termination. A successful call of a parsing method moves the cursor to the right, and
  a loop never moves it to the left; first on the domain of the functions, which is
  what the termination proof needs for the calls that start where another call ended.
\<close>

abbreviation (input) "pdom \<equiv> parseOr_orLoop_parseAnd_andLoop_parseNot_parseComparison_parseAdditive_addLoop_parseMultiplicative_mulLoop_parsePrimary_parseFunctionCall_argsLoop_dom"

lemma currentToken_Inr_lt: "currentToken tokens i = Inr t \<Longrightarrow> i < length tokens"
  by (simp add: currentToken_def split: if_splits)

lemma progress_dom:
  "pdom (Inl (Inl (Inl (ts, vs, fs, i)))) \<Longrightarrow> parseOr ts vs fs i = Inr (v, j) \<Longrightarrow> i < j"
  "pdom (Inl (Inl (Inr (Inl (ts, vs, fs, left, i))))) \<Longrightarrow> orLoop ts vs fs left i = Inr (v, j) \<Longrightarrow> i \<le> j"
  "pdom (Inl (Inl (Inr (Inr (ts, vs, fs, i))))) \<Longrightarrow> parseAnd ts vs fs i = Inr (v, j) \<Longrightarrow> i < j"
  "pdom (Inl (Inr (Inl (ts, vs, fs, left, i)))) \<Longrightarrow> andLoop ts vs fs left i = Inr (v, j) \<Longrightarrow> i \<le> j"
  "pdom (Inl (Inr (Inr (Inl (ts, vs, fs, i))))) \<Longrightarrow> parseNot ts vs fs i = Inr (v, j) \<Longrightarrow> i < j"
  "pdom (Inl (Inr (Inr (Inr (ts, vs, fs, i))))) \<Longrightarrow> parseComparison ts vs fs i = Inr (v, j) \<Longrightarrow> i < j"
  "pdom (Inr (Inl (Inl (ts, vs, fs, i)))) \<Longrightarrow> parseAdditive ts vs fs i = Inr (v, j) \<Longrightarrow> i < j"
  "pdom (Inr (Inl (Inr (Inl (ts, vs, fs, left, i))))) \<Longrightarrow> addLoop ts vs fs left i = Inr (v, j) \<Longrightarrow> i \<le> j"
  "pdom (Inr (Inl (Inr (Inr (ts, vs, fs, i))))) \<Longrightarrow> parseMultiplicative ts vs fs i = Inr (v, j) \<Longrightarrow> i < j"
  "pdom (Inr (Inr (Inl (Inl (ts, vs, fs, left, i))))) \<Longrightarrow> mulLoop ts vs fs left i = Inr (v, j) \<Longrightarrow> i \<le> j"
  "pdom (Inr (Inr (Inl (Inr (ts, vs, fs, i))))) \<Longrightarrow> parsePrimary ts vs fs i = Inr (v, j) \<Longrightarrow> i < j"
  "pdom (Inr (Inr (Inr (Inl (ts, vs, fs, name, i))))) \<Longrightarrow> parseFunctionCall ts vs fs name i = Inr (v, j) \<Longrightarrow> i < j"
  "pdom (Inr (Inr (Inr (Inr (ts, vs, fs, args, i))))) \<Longrightarrow> argsLoop ts vs fs args i = Inr (vl, j) \<Longrightarrow> i \<le> j"
proof (induct ts vs fs i and ts vs fs left i and ts vs fs i and ts vs fs left i and ts vs fs i
    and ts vs fs i and ts vs fs i and ts vs fs left i and ts vs fs i and ts vs fs left i
    and ts vs fs i and ts vs fs name i and ts vs fs args i
    arbitrary: v j and v j and v j and v j and v j and v j and v j and v j and v j and v j and v j and v j and vl j
    rule: parseOr_orLoop_parseAnd_andLoop_parseNot_parseComparison_parseAdditive_addLoop_parseMultiplicative_mulLoop_parsePrimary_parseFunctionCall_argsLoop.pinduct)
  case (1 ts vs fs i)
  from "1.prems" "1.hyps"(1) show ?case
    using "1.hyps"(2-)
    by (auto simp: parseOr.psimps dest: currentToken_Inr_lt split: sum.splits prod.splits if_splits option.splits jsval.splits) (force+)?
next
  case (2 ts vs fs left i)
  from "2.prems" "2.hyps"(1) show ?case
    using "2.hyps"(2-)
    by (auto simp: orLoop.psimps dest: currentToken_Inr_lt split: sum.splits prod.splits if_splits option.splits jsval.splits) (force+)?
next
  case (3 ts vs fs i)
  from "3.prems" "3.hyps"(1) show ?case
    using "3.hyps"(2-)
    by (auto simp: parseAnd.psimps dest: currentToken_Inr_lt split: sum.splits prod.splits if_splits option.splits jsval.splits) (force+)?
next
  case (4 ts vs fs left i)
  from "4.prems" "4.hyps"(1) show ?case
    using "4.hyps"(2-)
    by (auto simp: andLoop.psimps dest: currentToken_Inr_lt split: sum.splits prod.splits if_splits option.splits jsval.splits) (force+)?
next
  case (5 ts vs fs i)
  from "5.prems" "5.hyps"(1) show ?case
    using "5.hyps"(2-)
    by (auto simp: parseNot.psimps dest: currentToken_Inr_lt split: sum.splits prod.splits if_splits option.splits jsval.splits) (force+)?
next
  case (6 ts vs fs i)
  from "6.prems" "6.hyps"(1) show ?case
    using "6.hyps"(2-)
    by (auto simp: parseComparison.psimps dest: currentToken_Inr_lt split: sum.splits prod.splits if_splits option.splits jsval.splits) (force+)?
next
  case (7 ts vs fs i)
  from "7.prems" "7.hyps"(1) show ?case
    using "7.hyps"(2-)
    by (auto simp: parseAdditive.psimps dest: currentToken_Inr_lt split: sum.splits prod.splits if_splits option.splits jsval.splits) (force+)?
next
  case (8 ts vs fs left i)
  from "8.prems" "8.hyps"(1) show ?case
    using "8.hyps"(2-)
    by (auto simp: addLoop.psimps dest: currentToken_Inr_lt split: sum.splits prod.splits if_splits option.splits jsval.splits) (force+)?
next
  case (9 ts vs fs i)
  from "9.prems" "9.hyps"(1) show ?case
    using "9.hyps"(2-)
    by (auto simp: parseMultiplicative.psimps dest: currentToken_Inr_lt split: sum.splits prod.splits if_splits option.splits jsval.splits) (force+)?
next
  case (10 ts vs fs left i)
  from "10.prems" "10.hyps"(1) show ?case
    using "10.hyps"(2-)
    by (auto simp: mulLoop.psimps dest: currentToken_Inr_lt split: sum.splits prod.splits if_splits option.splits jsval.splits) (force+)?
next
  case (11 ts vs fs i)
  from "11.prems" "11.hyps"(1) show ?case
    using "11.hyps"(2-)
    by (auto simp: parsePrimary.psimps dest: currentToken_Inr_lt split: sum.splits prod.splits if_splits option.splits jsval.splits) (force+)?
next
  case (12 ts vs fs functionName i)
  from "12.prems" "12.hyps"(1) show ?case
    using "12.hyps"(2-)
    by (auto simp: parseFunctionCall.psimps dest: currentToken_Inr_lt split: sum.splits prod.splits if_splits option.splits jsval.splits) (force+)?
next
  case (13 ts vs fs args i)
  from "13.prems" "13.hyps"(1) show ?case
    using "13.hyps"(2-)
    by (auto simp: argsLoop.psimps dest: currentToken_Inr_lt split: sum.splits prod.splits if_splits option.splits jsval.splits) (force+)?
qed

termination parseOr
  apply (relation "inv_image (less_than <*lex*> less_than)
    (case_sum
      (case_sum
        (case_sum (\<lambda>(ts, vs, fs, i). (length ts - i, 7::nat))
          (case_sum (\<lambda>(ts, vs, fs, left, i). (length ts - i, 0))
                    (\<lambda>(ts, vs, fs, i). (length ts - i, 6))))
        (case_sum (\<lambda>(ts, vs, fs, left, i). (length ts - i, 0))
          (case_sum (\<lambda>(ts, vs, fs, i). (length ts - i, 5))
                    (\<lambda>(ts, vs, fs, i). (length ts - i, 4)))))
      (case_sum
        (case_sum (\<lambda>(ts, vs, fs, i). (length ts - i, 3))
          (case_sum (\<lambda>(ts, vs, fs, left, i). (length ts - i, 0))
                    (\<lambda>(ts, vs, fs, i). (length ts - i, 2))))
        (case_sum
          (case_sum (\<lambda>(ts, vs, fs, left, i). (length ts - i, 0))
                    (\<lambda>(ts, vs, fs, i). (length ts - i, 1)))
          (case_sum (\<lambda>(ts, vs, fs, name, i). (length ts - i, 9))
                    (\<lambda>(ts, vs, fs, args, i). (length ts - i, 8))))))")
  apply simp
  apply (auto dest!: currentToken_Inr_lt dest: progress_dom)
     apply (drule progress_dom(3), assumption, arith)
    apply (drule progress_dom(5), assumption, arith)
   apply (drule progress_dom(9), assumption, arith)
  apply (drule progress_dom(11), assumption, arith)
  done

declare parseOr.simps [simp del] orLoop.simps [simp del] parseAnd.simps [simp del]
  andLoop.simps [simp del] parseNot.simps [simp del] parseComparison.simps [simp del]
  parseAdditive.simps [simp del] addLoop.simps [simp del]
  parseMultiplicative.simps [simp del] mulLoop.simps [simp del]
  parsePrimary.simps [simp del] parseFunctionCall.simps [simp del]
  argsLoop.simps [simp del]

text \<open>\<^verbatim>\<open>new ExpressionEvaluator(tokens, variables, functions).evaluate()\<close>.\<close>

definition ExpressionEvaluator_evaluate ::
  "token list \<Rightarrow> (string \<rightharpoonup> jsval) \<Rightarrow> (string \<rightharpoonup> jsfun) \<Rightarrow> error + jsval" where
  "ExpressionEvaluator_evaluate tokens variables functions =
     (case parseOr tokens variables functions 0 of
        Inl e \<Rightarrow> Inl e
      | Inr (v, i) \<Rightarrow> Inr v)"

text \<open>An optional \<^verbatim>\<open>variables\<close> argument: \<^verbatim>\<open>variables || {}\<close>, or the default \<^verbatim>\<open>{}\<close>.\<close>

definition or_empty :: "(string \<rightharpoonup> jsval) option \<Rightarrow> (string \<rightharpoonup> jsval)" where
  "or_empty variables = (case variables of None \<Rightarrow> Map.empty | Some vs \<Rightarrow> vs)"

text \<open>The helper functions \<^verbatim>\<open>evaluate\<close> and \<^verbatim>\<open>compile\<close> of \<^verbatim>\<open>evaluator.ts\<close>.\<close>

definition evaluate :: "string \<Rightarrow> (string \<rightharpoonup> jsval) option \<Rightarrow> error + jsval" where
  "evaluate expression variables =
     (let tokens = tokenize expression
      in ExpressionEvaluator_evaluate tokens (or_empty variables) Map.empty)"

definition compile :: "string \<Rightarrow> (string \<rightharpoonup> jsval) option \<Rightarrow> error + jsval" where
  "compile expression =
     (let tokens = tokenize expression
      in (\<lambda>variables. ExpressionEvaluator_evaluate tokens (or_empty variables) Map.empty))"

subsection \<open>Facade\<close>

text \<open>
  The class \<^verbatim>\<open>Parser\<close> with its two registries; the fields \<^verbatim>\<open>functions\<close> and \<^verbatim>\<open>consts\<close>
  are \<open>Parser_functions\<close> and \<open>Parser_consts\<close> here, both names being reserved words. \<open>Parser_parse self expression\<close> is the
  \<^verbatim>\<open>evaluate\<close> method of the object that \<^verbatim>\<open>parse\<close> returns; \<^verbatim>\<open>{...consts, ...variables}\<close> is
  \<open>consts ++ variables\<close>, and the \<^verbatim>\<open>catch\<close> wraps any exception.
\<close>

record Parser =
  Parser_functions :: "string \<rightharpoonup> jsfun"
  Parser_consts :: "string \<rightharpoonup> jsval"

definition Parser_parse ::
  "Parser \<Rightarrow> string \<Rightarrow> (string \<rightharpoonup> jsval) option \<Rightarrow> error + jsval" where
  "Parser_parse self expression =
     (\<lambda>variables.
        if expression = [] then Inr (VBool True)
        else
          (case (let allVars = Parser_consts self ++ or_empty variables;
                     tokens = tokenize expression
                 in ExpressionEvaluator_evaluate tokens allVars (Parser_functions self)) of
             Inl e \<Rightarrow> Inl (EvaluationError expression e)
           | Inr v \<Rightarrow> Inr v))"

definition Parser_evaluate ::
  "Parser \<Rightarrow> string \<Rightarrow> (string \<rightharpoonup> jsval) option \<Rightarrow> error + jsval" where
  "Parser_evaluate self expression variables = Parser_parse self expression variables"

section \<open>Properties\<close>

text \<open>Tokens written out, for the statements below.\<close>

abbreviation Num :: "jsnum \<Rightarrow> nat \<Rightarrow> token" where
  "Num n p \<equiv> \<lparr>type = NUMBER, val = VNum n, position = p\<rparr>"

abbreviation Op :: "string \<Rightarrow> nat \<Rightarrow> token" where
  "Op s p \<equiv> \<lparr>type = OPERATOR, val = VStr s, position = p\<rparr>"

abbreviation Ident :: "string \<Rightarrow> nat \<Rightarrow> token" where
  "Ident s p \<equiv> \<lparr>type = IDENTIFIER, val = VStr s, position = p\<rparr>"

abbreviation Open :: "nat \<Rightarrow> token" where
  "Open p \<equiv> \<lparr>type = PAREN_OPEN, val = VStr ''('', position = p\<rparr>"

abbreviation Close :: "nat \<Rightarrow> token" where
  "Close p \<equiv> \<lparr>type = PAREN_CLOSE, val = VStr '')'', position = p\<rparr>"

abbreviation Eof :: "nat \<Rightarrow> token" where
  "Eof p \<equiv> \<lparr>type = EOF, val = VStr [], position = p\<rparr>"

subsection \<open>Arithmetic expressions as trees\<close>

text \<open>
  The reference against which the evaluator is compared; nothing of this subsection is
  code of the repository. An arithmetic expression is a tree of Number literals,
  parenthesized expressions (\<open>Par\<close>) and binary operators, and its value is computed
  along the tree. \<open>add_shape\<close> writes a tree as the token shapes (type and value,
  without position) of the expression, with the parentheses of its \<open>Par\<close> nodes and
  those that the standard conventions require: a left operand of the same level stands
  as it is (the operators associate to the left), while an additive expression under a
  multiplicative operator, an additive right operand of an additive operator and a
  multiplicative right operand of a multiplicative operator are parenthesized.
\<close>

datatype binop = OpAdd | OpSub | OpMul | OpDiv | OpMod

datatype aexpr = Lit jsnum | Par aexpr | Bin aexpr binop aexpr

fun is_additive :: "binop \<Rightarrow> bool" where
  "is_additive OpAdd = True"
| "is_additive OpSub = True"
| "is_additive _ = False"

fun op_string :: "binop \<Rightarrow> string" where
  "op_string OpAdd = ''+''"
| "op_string OpSub = ''-''"
| "op_string OpMul = ''*''"
| "op_string OpDiv = ''/''"
| "op_string OpMod = ''%''"

fun apply_op :: "binop \<Rightarrow> jsnum \<Rightarrow> jsnum \<Rightarrow> jsnum" where
  "apply_op OpAdd a b = num_add a b"
| "apply_op OpSub a b = num_sub a b"
| "apply_op OpMul a b = num_mul a b"
| "apply_op OpDiv a b = num_div a b"
| "apply_op OpMod a b = num_mod a b"

fun value_of :: "aexpr \<Rightarrow> jsnum" where
  "value_of (Lit n) = n"
| "value_of (Par e) = value_of e"
| "value_of (Bin l op r) = apply_op op (value_of l) (value_of r)"

type_synonym shape = "token_type \<times> jsval"

definition shape_of :: "token \<Rightarrow> shape" where
  "shape_of t = (type t, val t)"

function add_shape :: "aexpr \<Rightarrow> shape list"
  and mul_shape :: "aexpr \<Rightarrow> shape list"
  and prim_shape :: "aexpr \<Rightarrow> shape list" where
  "add_shape (Lit n) = mul_shape (Lit n)"
| "add_shape (Par e) = mul_shape (Par e)"
| "add_shape (Bin l op r) =
     (if is_additive op
      then add_shape l @ [(OPERATOR, VStr (op_string op))] @ mul_shape r
      else mul_shape (Bin l op r))"
| "mul_shape (Lit n) = prim_shape (Lit n)"
| "mul_shape (Par e) = prim_shape (Par e)"
| "mul_shape (Bin l op r) =
     (if is_additive op
      then prim_shape (Bin l op r)
      else mul_shape l @ [(OPERATOR, VStr (op_string op))] @ prim_shape r)"
| "prim_shape (Lit n) = [(NUMBER, VNum n)]"
| "prim_shape (Par e) = [(PAREN_OPEN, VStr ''('')] @ add_shape e @ [(PAREN_CLOSE, VStr '')'')]"
| "prim_shape (Bin l op r) =
     [(PAREN_OPEN, VStr ''('')] @ add_shape (Bin l op r) @ [(PAREN_CLOSE, VStr '')'')]"
  by pat_completeness auto
termination
  by (relation "measure (case_sum
        (\<lambda>e. 3 * size e + (case e of Lit n \<Rightarrow> 2 | Par e' \<Rightarrow> 2 | Bin l op r \<Rightarrow> if is_additive op then 0 else 1))
        (case_sum
          (\<lambda>e. 3 * size e + (case e of Lit n \<Rightarrow> 1 | Par e' \<Rightarrow> 1 | Bin l op r \<Rightarrow> if is_additive op then 2 else 0))
          (\<lambda>e. 3 * size e + (case e of Lit n \<Rightarrow> 0 | Par e' \<Rightarrow> 0 | Bin l op r \<Rightarrow> if is_additive op then 1 else 2))))")
     (auto split: aexpr.splits)

text \<open>
  The evaluator on a token list with the shapes of a tree: each level, started on the
  first token of the expression, continues as its loop does after the expression, with
  the value of the tree as the left operand.
\<close>

lemma token_at:
  assumes "map shape_of ts = pre @ (ty, v) # rest"
  shows "\<exists>t. currentToken ts (length pre) = Inr t \<and> type t = ty \<and> val t = v"
proof -
  have len: "length ts = length pre + Suc (length rest)"
    using arg_cong [OF assms, of length] by simp
  have "map shape_of ts ! length pre = (ty, v)"
    using assms by simp
  then have "shape_of (ts ! length pre) = (ty, v)"
    using len by simp
  then show ?thesis using len by (simp add: currentToken_def shape_of_def)
qed

definition is_mul_shape :: "shape \<Rightarrow> bool" where
  "is_mul_shape s = (fst s = OPERATOR \<and> snd s \<in> set [VStr ''*'', VStr ''/'', VStr ''%''])"

definition is_add_shape :: "shape \<Rightarrow> bool" where
  "is_add_shape s = (fst s = OPERATOR \<and> (snd s = VStr ''+'' \<or> snd s = VStr ''-''))"

lemma mulLoop_stop:
  assumes "currentToken ts i = Inr t" "\<not> is_mul_shape (shape_of t)"
  shows "mulLoop ts vs fs left i = Inr (left, i)"
  using assms by (subst mulLoop.simps) (auto simp: is_mul_shape_def shape_of_def)

lemma addLoop_stop:
  assumes "currentToken ts i = Inr t" "\<not> is_add_shape (shape_of t)"
  shows "addLoop ts vs fs left i = Inr (left, i)"
  using assms by (subst addLoop.simps) (auto simp: is_add_shape_def shape_of_def)

lemma mulLoop_step:
  assumes "currentToken ts i = Inr t" "type t = OPERATOR" "val t = VStr (op_string op)"
    and "\<not> is_additive op" "parsePrimary ts vs fs (i + 1) = Inr (VNum b, j)"
  shows "mulLoop ts vs fs (VNum a) i = mulLoop ts vs fs (VNum (apply_op op a b)) j"
  using assms by (subst mulLoop.simps) (cases op; simp)

lemma addLoop_step:
  assumes "currentToken ts i = Inr t" "type t = OPERATOR" "val t = VStr (op_string op)"
    and "is_additive op" "parseMultiplicative ts vs fs (i + 1) = Inr (VNum b, j)"
  shows "addLoop ts vs fs (VNum a) i = addLoop ts vs fs (VNum (apply_op op a b)) j"
  using assms by (subst addLoop.simps) (cases op; simp)

text \<open>
  From an additive expression to the levels above it: when the first token is not an
  identifier and the token after the expression is neither an operator nor an
  identifier, \<open>parseOr\<close> returns what \<open>parseAdditive\<close> returns.
\<close>

lemma parseOr_of_parseComparison:
  assumes "currentToken ts i = Inr t" "type t \<noteq> IDENTIFIER"
    and "parseComparison ts vs fs i = Inr (v, k)"
    and "currentToken ts k = Inr d" "type d \<noteq> IDENTIFIER"
  shows "parseOr ts vs fs i = Inr (v, k)"
proof -
  have "parseNot ts vs fs i = Inr (v, k)"
    using assms by (subst parseNot.simps) simp
  moreover have "andLoop ts vs fs v k = Inr (v, k)"
    using assms by (subst andLoop.simps) simp
  ultimately have "parseAnd ts vs fs i = Inr (v, k)"
    by (subst parseAnd.simps) simp
  moreover have "orLoop ts vs fs v k = Inr (v, k)"
    using assms by (subst orLoop.simps) simp
  ultimately show ?thesis
    by (subst parseOr.simps) simp
qed

lemma parseOr_of_parseAdditive:
  assumes "currentToken ts i = Inr t" "type t \<noteq> IDENTIFIER"
    and "parseAdditive ts vs fs i = Inr (v, k)"
    and "currentToken ts k = Inr d" "type d \<noteq> OPERATOR" "type d \<noteq> IDENTIFIER"
  shows "parseOr ts vs fs i = Inr (v, k)"
proof -
  have "parseComparison ts vs fs i = Inr (v, k)"
    using assms by (subst parseComparison.simps) simp
  with assms(1,2) show ?thesis using assms(4,6) by (rule parseOr_of_parseComparison)
qed

lemma shape_head:
  "add_shape e \<noteq> [] \<and> fst (hd (add_shape e)) \<in> {NUMBER, PAREN_OPEN}"
  "mul_shape e \<noteq> [] \<and> fst (hd (mul_shape e)) \<in> {NUMBER, PAREN_OPEN}"
  "prim_shape e \<noteq> [] \<and> fst (hd (prim_shape e)) \<in> {NUMBER, PAREN_OPEN}"
  by (induction e and e and e rule: add_shape_mul_shape_prim_shape.induct) auto

lemma token_after:
  assumes "map shape_of ts = pre @ xs @ rest" "rest \<noteq> []"
  shows "\<exists>t. currentToken ts (length pre + length xs) = Inr t \<and> shape_of t = hd rest"
proof -
  from assms(2) obtain d rest' where r: "rest = d # rest'" by (cases rest) auto
  have "map shape_of ts = (pre @ xs) @ (fst d, snd d) # rest'"
    using assms(1) r by simp
  from token_at [OF this] show ?thesis using r by (auto simp: shape_of_def)
qed

lemma mul_of_prim:
  assumes "parsePrimary ts vs fs i = Inr (VNum x, k)"
  shows "parseMultiplicative ts vs fs i = mulLoop ts vs fs (VNum x) k"
  using assms by (subst parseMultiplicative.simps) simp

lemma add_of_mul:
  assumes "parseMultiplicative ts vs fs i = mulLoop ts vs fs (VNum x) k"
    and "currentToken ts k = Inr d" "\<not> is_mul_shape (shape_of d)"
  shows "parseAdditive ts vs fs i = addLoop ts vs fs (VNum x) k"
proof -
  have "parseMultiplicative ts vs fs i = Inr (VNum x, k)"
    using assms(1) mulLoop_stop [OF assms(2,3)] by simp
  then show ?thesis by (subst parseAdditive.simps) simp
qed

lemma add_of_mul_shape:
  assumes m: "map shape_of ts = pre @ mul_shape e @ rest"
    and rest: "rest \<noteq> []" "\<not> is_mul_shape (hd rest)"
    and mul: "parseMultiplicative ts vs fs (length pre)
                = mulLoop ts vs fs (VNum x) (length pre + length (mul_shape e))"
  shows "parseAdditive ts vs fs (length pre)
           = addLoop ts vs fs (VNum x) (length pre + length (mul_shape e))"
proof -
  from token_after [OF m rest(1)] obtain d
    where d: "currentToken ts (length pre + length (mul_shape e)) = Inr d"
      "shape_of d = hd rest" by blast
  show ?thesis using add_of_mul [OF mul d(1)] d(2) rest(2) by simp
qed

lemma primary_of_parenthesized:
  assumes sh: "map shape_of ts
      = pre @ (PAREN_OPEN, VStr ''('') # (add_shape e @ (PAREN_CLOSE, VStr '')'') # rest)"
    and add: "parseAdditive ts vs fs (length pre + 1)
                = addLoop ts vs fs (VNum x) (length pre + 1 + length (add_shape e))"
  shows "parsePrimary ts vs fs (length pre)
           = Inr (VNum x, length pre + 1 + length (add_shape e) + 1)"
proof -
  let ?open = "(PAREN_OPEN, VStr ''('')"
  let ?close = "(PAREN_CLOSE, VStr '')'')"
  let ?k = "length pre + 1 + length (add_shape e)"
  from token_at [OF sh] obtain t
    where t: "currentToken ts (length pre) = Inr t" "type t = PAREN_OPEN" by auto
  have she: "map shape_of ts = (pre @ [?open]) @ add_shape e @ (?close # rest)"
    using sh by simp
  from token_after [OF she] obtain d
    where d: "currentToken ts ?k = Inr d" "shape_of d = ?close" by auto
  then have dt: "type d = PAREN_CLOSE" by (simp add: shape_of_def)
  have inner: "parseAdditive ts vs fs (length pre + 1) = Inr (VNum x, ?k)"
    using add addLoop_stop [OF d(1)] d(2) by (simp add: is_add_shape_def)
  obtain h hs where hs: "add_shape e = h # hs" "fst h \<in> {NUMBER, PAREN_OPEN}"
    using shape_head(1) [of e] by (cases "add_shape e") auto
  have "map shape_of ts = (pre @ [?open]) @ (fst h, snd h) # (hs @ ?close # rest)"
    using sh hs(1) by simp
  from token_at [OF this] obtain t1
    where t1: "currentToken ts (length pre + 1) = Inr t1" "type t1 = fst h" by auto
  have "parseOr ts vs fs (length pre + 1) = Inr (VNum x, ?k)"
    using t1(1) _ inner d(1)
  proof (rule parseOr_of_parseAdditive)
    show "type t1 \<noteq> IDENTIFIER" using t1(2) hs(2) by auto
    show "type d \<noteq> OPERATOR" "type d \<noteq> IDENTIFIER" using dt by simp_all
  qed
  then show ?thesis
    using t d(1) dt by (subst parsePrimary.simps) simp
qed

lemma parse_shapes:
  "map shape_of ts = pre @ add_shape e @ rest \<Longrightarrow> rest \<noteq> [] \<Longrightarrow> \<not> is_mul_shape (hd rest)
     \<Longrightarrow> parseAdditive ts vs fs (length pre)
         = addLoop ts vs fs (VNum (value_of e)) (length pre + length (add_shape e))"
  "map shape_of ts = pre @ mul_shape e @ rest
     \<Longrightarrow> parseMultiplicative ts vs fs (length pre)
         = mulLoop ts vs fs (VNum (value_of e)) (length pre + length (mul_shape e))"
  "map shape_of ts = pre @ prim_shape e @ rest
     \<Longrightarrow> parsePrimary ts vs fs (length pre)
         = Inr (VNum (value_of e), length pre + length (prim_shape e))"
proof (induction e and e and e arbitrary: pre rest and pre rest and pre rest
    rule: add_shape_mul_shape_prim_shape.induct)
  case (1 n)
  from "1.prems"(1) have m: "map shape_of ts = pre @ mul_shape (Lit n) @ rest" by simp
  show ?case
    using add_of_mul_shape [OF m "1.prems"(2,3) "1.IH" [OF m]] by simp
next
  case (2 e)
  from "2.prems"(1) have m: "map shape_of ts = pre @ mul_shape (Par e) @ rest" by simp
  show ?case
    using add_of_mul_shape [OF m "2.prems"(2,3) "2.IH" [OF m]] by simp
next
  case (3 l op r)
  show ?case
  proof (cases "is_additive op")
    case False
    from "3.prems"(1) False have m: "map shape_of ts = pre @ mul_shape (Bin l op r) @ rest"
      by simp
    show ?thesis
      using add_of_mul_shape [OF m "3.prems"(2,3) "3.IH"(3) [OF False m]] False by simp
  next
    case True
    let ?o = "(OPERATOR, VStr (op_string op))"
    let ?i = "length pre + length (add_shape l)"
    have sh: "map shape_of ts = pre @ add_shape l @ (?o # mul_shape r @ rest)"
      using "3.prems"(1) True by simp
    have nm: "\<not> is_mul_shape ?o"
      using True by (cases op) (simp_all add: is_mul_shape_def)
    have left: "parseAdditive ts vs fs (length pre) = addLoop ts vs fs (VNum (value_of l)) ?i"
      using "3.IH"(1) [OF True sh] nm by simp
    have "map shape_of ts = (pre @ add_shape l) @ ?o # (mul_shape r @ rest)"
      using sh by simp
    from token_at [OF this] obtain t
      where t: "currentToken ts ?i = Inr t" "type t = OPERATOR" "val t = VStr (op_string op)"
      by auto
    have shr: "map shape_of ts = (pre @ add_shape l @ [?o]) @ mul_shape r @ rest"
      using sh by simp
    let ?k = "?i + 1 + length (mul_shape r)"
    have "parseMultiplicative ts vs fs (?i + 1) = mulLoop ts vs fs (VNum (value_of r)) ?k"
      using "3.IH"(2) [OF True shr] by simp
    moreover
    from token_after [OF shr "3.prems"(2)] obtain d
      where d: "currentToken ts ?k = Inr d" "shape_of d = hd rest" by auto
    ultimately have right: "parseMultiplicative ts vs fs (?i + 1) = Inr (VNum (value_of r), ?k)"
      using mulLoop_stop [OF d(1)] "3.prems"(3) d(2) by simp
    have "addLoop ts vs fs (VNum (value_of l)) ?i
          = addLoop ts vs fs (VNum (apply_op op (value_of l) (value_of r))) ?k"
      using t True right by (rule addLoop_step)
    with left show ?thesis using True by (simp add: ac_simps)
  qed
next
  case (4 n)
  from "4.prems" have m: "map shape_of ts = pre @ prim_shape (Lit n) @ rest" by simp
  show ?case using mul_of_prim [OF "4.IH" [OF m]] by simp
next
  case (5 e)
  from "5.prems" have m: "map shape_of ts = pre @ prim_shape (Par e) @ rest" by simp
  show ?case using mul_of_prim [OF "5.IH" [OF m]] by simp
next
  case (6 l op r)
  show ?case
  proof (cases "is_additive op")
    case True
    from "6.prems" True have m: "map shape_of ts = pre @ prim_shape (Bin l op r) @ rest"
      by simp
    show ?thesis using mul_of_prim [OF "6.IH"(1) [OF True m]] True by simp
  next
    case False
    let ?o = "(OPERATOR, VStr (op_string op))"
    let ?i = "length pre + length (mul_shape l)"
    have sh: "map shape_of ts = pre @ mul_shape l @ (?o # prim_shape r @ rest)"
      using "6.prems" False by simp
    have left: "parseMultiplicative ts vs fs (length pre)
                = mulLoop ts vs fs (VNum (value_of l)) ?i"
      using "6.IH"(2) [OF False sh] by simp
    have "map shape_of ts = (pre @ mul_shape l) @ ?o # (prim_shape r @ rest)"
      using sh by simp
    from token_at [OF this] obtain t
      where t: "currentToken ts ?i = Inr t" "type t = OPERATOR" "val t = VStr (op_string op)"
      by auto
    have shr: "map shape_of ts = (pre @ mul_shape l @ [?o]) @ prim_shape r @ rest"
      using sh by simp
    let ?k = "?i + 1 + length (prim_shape r)"
    have right: "parsePrimary ts vs fs (?i + 1) = Inr (VNum (value_of r), ?k)"
      using "6.IH"(3) [OF False shr] by simp
    have "mulLoop ts vs fs (VNum (value_of l)) ?i
          = mulLoop ts vs fs (VNum (apply_op op (value_of l) (value_of r))) ?k"
      using t False right by (rule mulLoop_step)
    with left show ?thesis using False by (simp add: ac_simps)
  qed
next
  case (7 n)
  from "7.prems" have "map shape_of ts = pre @ (NUMBER, VNum n) # rest" by simp
  from token_at [OF this] obtain t
    where "currentToken ts (length pre) = Inr t" "type t = NUMBER" "val t = VNum n" by auto
  then show ?case by (subst parsePrimary.simps) simp
next
  case (8 e)
  let ?open = "(PAREN_OPEN, VStr ''('')"
  let ?close = "(PAREN_CLOSE, VStr '')'')"
  have sh: "map shape_of ts = pre @ ?open # (add_shape e @ ?close # rest)"
    using "8.prems" by simp
  then have she: "map shape_of ts = (pre @ [?open]) @ add_shape e @ (?close # rest)"
    by simp
  have "parseAdditive ts vs fs (length pre + 1)
        = addLoop ts vs fs (VNum (value_of e)) (length pre + 1 + length (add_shape e))"
    using "8.IH" [OF she] by (simp add: is_mul_shape_def)
  from primary_of_parenthesized [OF sh this] show ?case by simp
next
  case (9 l op r)
  let ?e = "Bin l op r"
  let ?open = "(PAREN_OPEN, VStr ''('')"
  let ?close = "(PAREN_CLOSE, VStr '')'')"
  have sh: "map shape_of ts = pre @ ?open # (add_shape ?e @ ?close # rest)"
    using "9.prems" by simp
  then have she: "map shape_of ts = (pre @ [?open]) @ add_shape ?e @ (?close # rest)"
    by simp
  have "parseAdditive ts vs fs (length pre + 1)
        = addLoop ts vs fs (VNum (value_of ?e)) (length pre + 1 + length (add_shape ?e))"
    using "9.IH" [OF she] by (simp add: is_mul_shape_def)
  from primary_of_parenthesized [OF sh this] show ?case by simp
qed

lemma arithmetic_expression_value:
  assumes "map shape_of ts = add_shape e @ [(EOF, v)]"
  shows "ExpressionEvaluator_evaluate ts vs fs = Inr (VNum (value_of e))"
proof -
  have sh: "map shape_of ts = [] @ add_shape e @ [(EOF, v)]" using assms by simp
  let ?k = "length (add_shape e)"
  have "parseAdditive ts vs fs 0 = addLoop ts vs fs (VNum (value_of e)) ?k"
    using parse_shapes(1) [OF sh] by (simp add: is_mul_shape_def)
  moreover
  from token_after [OF sh] obtain d
    where d: "currentToken ts ?k = Inr d" "shape_of d = (EOF, v)" by auto
  then have dt: "type d = EOF" by (simp add: shape_of_def)
  ultimately have inner: "parseAdditive ts vs fs 0 = Inr (VNum (value_of e), ?k)"
    using addLoop_stop [OF d(1)] d(2) by (simp add: is_add_shape_def)
  obtain h hs where hs: "add_shape e = h # hs" "fst h \<in> {NUMBER, PAREN_OPEN}"
    using shape_head(1) [of e] by (cases "add_shape e") auto
  have "map shape_of ts = [] @ (fst h, snd h) # (hs @ [(EOF, v)])"
    using assms hs(1) by simp
  from token_at [OF this] obtain t1
    where t1: "currentToken ts 0 = Inr t1" "type t1 = fst h" by auto
  have "parseOr ts vs fs 0 = Inr (VNum (value_of e), ?k)"
    using t1(1) _ inner d(1)
  proof (rule parseOr_of_parseAdditive)
    show "type t1 \<noteq> IDENTIFIER" using t1(2) hs(2) by auto
    show "type d \<noteq> OPERATOR" "type d \<noteq> IDENTIFIER" using dt by simp_all
  qed
  then show ?thesis by (simp add: ExpressionEvaluator_evaluate_def)
qed

subsection \<open>Precedence and associativity\<close>

lemma eval_2_plus_3_times_4: "evaluate ''2 + 3 * 4'' vars = Inr (VNum (Fin 14))"
  by code_simp

lemma eval_paren_2_plus_3_times_4: "evaluate ''(2 + 3) * 4'' vars = Inr (VNum (Fin 20))"
  by code_simp

lemma eval_100_minus_50_minus_25: "evaluate ''100 - 50 - 25'' vars = Inr (VNum (Fin 25))"
  by code_simp

lemma eval_100_div_10_div_2: "evaluate ''100 / 10 / 2'' vars = Inr (VNum (Fin 5))"
  by code_simp

lemma shape_2_plus_3_times_4:
  "map shape_of (tokenize ''2 + 3 * 4'')
   = add_shape (Bin (Lit (Fin 2)) OpAdd (Bin (Lit (Fin 3)) OpMul (Lit (Fin 4))))
     @ [(EOF, VStr [])]"
  by code_simp

lemma shape_paren_2_plus_3_times_4:
  "map shape_of (tokenize ''(2 + 3) * 4'')
   = add_shape (Bin (Bin (Lit (Fin 2)) OpAdd (Lit (Fin 3))) OpMul (Lit (Fin 4)))
     @ [(EOF, VStr [])]"
  by code_simp

lemma shape_100_minus_50_minus_25:
  "map shape_of (tokenize ''100 - 50 - 25'')
   = add_shape (Bin (Bin (Lit (Fin 100)) OpSub (Lit (Fin 50))) OpSub (Lit (Fin 25)))
     @ [(EOF, VStr [])]"
  by code_simp

lemma shape_100_div_10_div_2:
  "map shape_of (tokenize ''100 / 10 / 2'')
   = add_shape (Bin (Bin (Lit (Fin 100)) OpDiv (Lit (Fin 10))) OpDiv (Lit (Fin 2)))
     @ [(EOF, VStr [])]"
  by code_simp

text \<open>
  Claim C1. For every arithmetic expression tree \<open>e\<close> and every token list with the
  shapes of \<open>e\<close>, written with the standard precedence and left associativity, followed
  by the end-of-input token, the evaluator returns the value of the tree: multiplicative
  operators bind tighter than additive ones, operators of one level group to the left,
  and parentheses override both. The four expressions of the specification tokenize to
  the shapes of \<open>2 + (3 * 4)\<close>, \<open>(2 + 3) * 4\<close>, \<open>(100 - 50) - 25\<close> and \<open>(100 / 10) / 2\<close>, and
  evaluate to 14, 20, 25 and 5 under any variables.
\<close>

theorem C1_precedence_and_associativity:
  "(map shape_of ts = add_shape e @ [(EOF, v)] \<longrightarrow>
      ExpressionEvaluator_evaluate ts vs fs = Inr (VNum (value_of e)))
   \<and> map shape_of (tokenize ''2 + 3 * 4'')
       = add_shape (Bin (Lit (Fin 2)) OpAdd (Bin (Lit (Fin 3)) OpMul (Lit (Fin 4))))
         @ [(EOF, VStr [])]
   \<and> map shape_of (tokenize ''(2 + 3) * 4'')
       = add_shape (Bin (Bin (Lit (Fin 2)) OpAdd (Lit (Fin 3))) OpMul (Lit (Fin 4)))
         @ [(EOF, VStr [])]
   \<and> map shape_of (tokenize ''100 - 50 - 25'')
       = add_shape (Bin (Bin (Lit (Fin 100)) OpSub (Lit (Fin 50))) OpSub (Lit (Fin 25)))
         @ [(EOF, VStr [])]
   \<and> map shape_of (tokenize ''100 / 10 / 2'')
       = add_shape (Bin (Bin (Lit (Fin 100)) OpDiv (Lit (Fin 10))) OpDiv (Lit (Fin 2)))
         @ [(EOF, VStr [])]
   \<and> evaluate ''2 + 3 * 4'' vars = Inr (VNum (Fin 14))
   \<and> evaluate ''(2 + 3) * 4'' vars = Inr (VNum (Fin 20))
   \<and> evaluate ''100 - 50 - 25'' vars = Inr (VNum (Fin 25))
   \<and> evaluate ''100 / 10 / 2'' vars = Inr (VNum (Fin 5))"
  using arithmetic_expression_value [of ts e v vs fs]
  by (intro conjI impI shape_2_plus_3_times_4 shape_paren_2_plus_3_times_4
      shape_100_minus_50_minus_25 shape_100_div_10_div_2 eval_2_plus_3_times_4
      eval_paren_2_plus_3_times_4 eval_100_minus_50_minus_25 eval_100_div_10_div_2)

text \<open>Claim C1 at the tokens of \<^verbatim>\<open>2 + 3 * 4\<close> and the tree \<open>2 + (3 * 4)\<close>.\<close>

lemma value_of_2_plus_3_times_4:
  "value_of (Bin (Lit (Fin 2)) OpAdd (Bin (Lit (Fin 3)) OpMul (Lit (Fin 4)))) = Fin 14"
  by code_simp

theorem C1_precedence_and_associativity_witness:
  "ExpressionEvaluator_evaluate (tokenize ''2 + 3 * 4'') Map.empty Map.empty
   = Inr (VNum (Fin 14))"
  using C1_precedence_and_associativity [of "tokenize ''2 + 3 * 4''"
      "Bin (Lit (Fin 2)) OpAdd (Bin (Lit (Fin 3)) OpMul (Lit (Fin 4)))" "VStr []"
      Map.empty Map.empty]
  by (simp only: shape_2_plus_3_times_4 value_of_2_plus_3_times_4)

text \<open>The defining equations of the evaluator, for evaluation on a given token list.\<close>

lemmas parse_simps = parseOr.simps orLoop.simps parseAnd.simps andLoop.simps parseNot.simps
  parseComparison.simps parseAdditive.simps addLoop.simps parseMultiplicative.simps
  mulLoop.simps parsePrimary.simps parseFunctionCall.simps argsLoop.simps currentToken_def
  ExpressionEvaluator_evaluate_def

subsection \<open>Comparison\<close>

lemma eval_x_eq_y:
  "evaluate ''x == y'' (Some [''x'' \<mapsto> l, ''y'' \<mapsto> r]) = Inr (VBool (loose_eq l r))"
  by code_simp

lemma eval_x_ne_y:
  "evaluate ''x != y'' (Some [''x'' \<mapsto> l, ''y'' \<mapsto> r]) = Inr (VBool (\<not> loose_eq l r))"
  by code_simp

lemma eval_x_gt_y:
  "evaluate ''x > y'' (Some [''x'' \<mapsto> l, ''y'' \<mapsto> r])
   = Inr (VBool (num_lt (toNumber r) (toNumber l)))"
  by code_simp

lemma eval_x_lt_y:
  "evaluate ''x < y'' (Some [''x'' \<mapsto> l, ''y'' \<mapsto> r])
   = Inr (VBool (num_lt (toNumber l) (toNumber r)))"
  by code_simp

lemma eval_x_ge_y:
  "evaluate ''x >= y'' (Some [''x'' \<mapsto> l, ''y'' \<mapsto> r])
   = Inr (VBool (num_le (toNumber r) (toNumber l)))"
  by code_simp

lemma eval_x_le_y:
  "evaluate ''x <= y'' (Some [''x'' \<mapsto> l, ''y'' \<mapsto> r])
   = Inr (VBool (num_le (toNumber l) (toNumber r)))"
  by code_simp

lemma eval_true_eq_1: "evaluate ''true == 1'' vars = Inr (VBool True)"
  by code_simp

lemma eval_b_gt_a: "evaluate ''\"b\" > \"a\"'' vars = Inr (VBool False)"
  by code_simp

lemma eval_10_gt_9: "evaluate ''\"10\" > \"9\"'' vars = Inr (VBool True)"
  by code_simp

lemma eval_a_eq_b: "evaluate ''\"a\" == \"b\"'' vars = Inr (VBool False)"
  by code_simp

lemma toNumber_a_b: "toNumber (VStr ''a'') = Fin 0 \<and> toNumber (VStr ''b'') = Fin 0"
  by code_simp

lemma toBool_a_b: "toBool (VStr ''a'') \<and> toBool (VStr ''b'')"
  by code_simp

lemma toNumber_10_9: "toNumber (VStr ''10'') = Fin 10 \<and> toNumber (VStr ''9'') = Fin 9"
  by code_simp

text \<open>
  Claim C2, counterexample. The claim says that \<^verbatim>\<open>"10" > "9"\<close> evaluates to false because
  both sides coerce toward 0. \<^verbatim>\<open>toNumber\<close> parses the two strings with \<^verbatim>\<open>parseFloat\<close> to
  10 and 9, and the comparison is true.
\<close>

theorem C2_string_10_gt_9_is_true: "evaluate ''\"10\" > \"9\"'' None = Inr (VBool True)"
  by (rule eval_10_gt_9)

text \<open>
  Claim C2, as amended. For any two values \<open>l\<close> and \<open>r\<close> of the variables \<^verbatim>\<open>x\<close> and \<^verbatim>\<open>y\<close>,
  \<^verbatim>\<open>x == y\<close> and \<^verbatim>\<open>x != y\<close> are the loose equality of the two values as they are and its
  negation, and the four ordering operators compare \<open>toNumber l\<close> with \<open>toNumber r\<close>.
  So \<^verbatim>\<open>true == 1\<close> is true; \<^verbatim>\<open>"a" == "b"\<close> is false although \<open>toNumber\<close> and \<open>toBool\<close>
  give the same result on both sides; \<^verbatim>\<open>"b" > "a"\<close> is false, comparing 0 with 0; and
  \<^verbatim>\<open>"10" > "9"\<close> is true, comparing 10 with 9.
\<close>

theorem C2_equality_raw_ordering_numeric:
  "evaluate ''x == y'' (Some [''x'' \<mapsto> l, ''y'' \<mapsto> r]) = Inr (VBool (loose_eq l r))
   \<and> evaluate ''x != y'' (Some [''x'' \<mapsto> l, ''y'' \<mapsto> r]) = Inr (VBool (\<not> loose_eq l r))
   \<and> evaluate ''x > y'' (Some [''x'' \<mapsto> l, ''y'' \<mapsto> r])
       = Inr (VBool (num_lt (toNumber r) (toNumber l)))
   \<and> evaluate ''x < y'' (Some [''x'' \<mapsto> l, ''y'' \<mapsto> r])
       = Inr (VBool (num_lt (toNumber l) (toNumber r)))
   \<and> evaluate ''x >= y'' (Some [''x'' \<mapsto> l, ''y'' \<mapsto> r])
       = Inr (VBool (num_le (toNumber r) (toNumber l)))
   \<and> evaluate ''x <= y'' (Some [''x'' \<mapsto> l, ''y'' \<mapsto> r])
       = Inr (VBool (num_le (toNumber l) (toNumber r)))
   \<and> evaluate ''true == 1'' vars = Inr (VBool True)
   \<and> evaluate ''\"a\" == \"b\"'' vars = Inr (VBool False)
   \<and> (toNumber (VStr ''a'') = Fin 0 \<and> toNumber (VStr ''b'') = Fin 0)
   \<and> (toBool (VStr ''a'') \<and> toBool (VStr ''b''))
   \<and> evaluate ''\"b\" > \"a\"'' vars = Inr (VBool False)
   \<and> (toNumber (VStr ''10'') = Fin 10 \<and> toNumber (VStr ''9'') = Fin 9)
   \<and> evaluate ''\"10\" > \"9\"'' vars = Inr (VBool True)"
  by (intro conjI eval_x_eq_y eval_x_ne_y eval_x_gt_y eval_x_lt_y eval_x_ge_y eval_x_le_y
      eval_true_eq_1 eval_a_eq_b toNumber_a_b toBool_a_b eval_b_gt_a toNumber_10_9
      eval_10_gt_9)

subsection \<open>Logical operators\<close>

lemma orLoop_step:
  assumes "currentToken ts i = Inr t" "type t = IDENTIFIER" "val t = VStr ''or''"
  shows "orLoop ts vs fs left i =
           (case parseAnd ts vs fs (i + 1) of
              Inl e \<Rightarrow> Inl e
            | Inr (right, j) \<Rightarrow> orLoop ts vs fs (VBool (toBool left \<or> toBool right)) j)"
  using assms by (subst orLoop.simps) simp

lemma andLoop_step:
  assumes "currentToken ts i = Inr t" "type t = IDENTIFIER" "val t = VStr ''and''"
  shows "andLoop ts vs fs left i =
           (case parseNot ts vs fs (i + 1) of
              Inl e \<Rightarrow> Inl e
            | Inr (right, j) \<Rightarrow> andLoop ts vs fs (VBool (toBool left \<and> toBool right)) j)"
  using assms by (subst andLoop.simps) simp

lemma eval_x_or_y:
  "evaluate ''x or y'' (Some [''x'' \<mapsto> l, ''y'' \<mapsto> r]) = Inr (VBool (toBool l \<or> toBool r))"
  by code_simp

lemma eval_x_and_y:
  "evaluate ''x and y'' (Some [''x'' \<mapsto> l, ''y'' \<mapsto> r]) = Inr (VBool (toBool l \<and> toBool r))"
  by code_simp

lemma eval_x_or_undefined:
  "evaluate ''x or y'' (Some [''x'' \<mapsto> l]) = Inl (UndefinedVariable ''y'')"
  by code_simp

lemma eval_x_and_undefined:
  "evaluate ''x and y'' (Some [''x'' \<mapsto> l]) = Inl (UndefinedVariable ''y'')"
  by code_simp

lemma eval_true_or_undefined: "evaluate ''true or y'' None = Inl (UndefinedVariable ''y'')"
  by code_simp

lemma eval_false_and_undefined: "evaluate ''false and y'' None = Inl (UndefinedVariable ''y'')"
  by code_simp

lemma tokenize_x_or_call:
  "tokenize ''x or f()''
   = [Ident ''x'' 0, Ident ''or'' 2, Ident ''f'' 5, Open 6, Close 7, Eof 8]"
  by code_simp

lemma tokenize_x_and_call:
  "tokenize ''x and f()''
   = [Ident ''x'' 0, Ident ''and'' 2, Ident ''f'' 6, Open 7, Close 8, Eof 9]"
  by code_simp

lemma eval_x_or_call:
  "ExpressionEvaluator_evaluate (tokenize ''x or f()'') [''x'' \<mapsto> l] [''f'' \<mapsto> g]
   = (case g [] of Inl e \<Rightarrow> Inl e | Inr r \<Rightarrow> Inr (VBool (toBool l \<or> toBool r)))"
  unfolding tokenize_x_or_call
  by (cases "g []") (simp_all add: parse_simps)

lemma eval_x_and_call:
  "ExpressionEvaluator_evaluate (tokenize ''x and f()'') [''x'' \<mapsto> l] [''f'' \<mapsto> g]
   = (case g [] of Inl e \<Rightarrow> Inl e | Inr r \<Rightarrow> Inr (VBool (toBool l \<and> toBool r)))"
  unfolding tokenize_x_and_call
  by (cases "g []") (simp_all add: parse_simps)

text \<open>
  Claim C3. The logical operators do not short-circuit. At the head of the loop of
  \<^verbatim>\<open>parseOr\<close>, when the current token is the identifier \<^verbatim>\<open>or\<close>, the right operand is
  parsed and evaluated whatever the left value is: its failure is the failure of the
  loop, and its value \<open>right\<close> is combined into the Boolean
  \<open>toBool left \<or> toBool right\<close>; likewise for \<^verbatim>\<open>and\<close> in \<^verbatim>\<open>parseAnd\<close>. For any values
  \<open>l\<close> and \<open>r\<close>, \<^verbatim>\<open>x or y\<close> evaluates to the Boolean \<open>toBool l \<or> toBool r\<close> and
  \<^verbatim>\<open>x and y\<close> to \<open>toBool l \<and> toBool r\<close>; with \<^verbatim>\<open>y\<close> undefined both fail with
  \<^verbatim>\<open>Undefined variable: y\<close> for every value of \<^verbatim>\<open>x\<close>, also after the literals \<^verbatim>\<open>true\<close>
  (for \<^verbatim>\<open>or\<close>) and \<^verbatim>\<open>false\<close> (for \<^verbatim>\<open>and\<close>); and a function on the right is called, and
  its exception propagated, for every value of \<^verbatim>\<open>x\<close>.
\<close>

theorem C3_no_short_circuit:
  "(currentToken ts i = Inr t \<and> type t = IDENTIFIER \<and> val t = VStr ''or'' \<longrightarrow>
      orLoop ts vs fs left i =
        (case parseAnd ts vs fs (i + 1) of
           Inl e \<Rightarrow> Inl e
         | Inr (right, j) \<Rightarrow> orLoop ts vs fs (VBool (toBool left \<or> toBool right)) j))
   \<and> (currentToken ts i = Inr t \<and> type t = IDENTIFIER \<and> val t = VStr ''and'' \<longrightarrow>
      andLoop ts vs fs left i =
        (case parseNot ts vs fs (i + 1) of
           Inl e \<Rightarrow> Inl e
         | Inr (right, j) \<Rightarrow> andLoop ts vs fs (VBool (toBool left \<and> toBool right)) j))
   \<and> evaluate ''x or y'' (Some [''x'' \<mapsto> l, ''y'' \<mapsto> r]) = Inr (VBool (toBool l \<or> toBool r))
   \<and> evaluate ''x and y'' (Some [''x'' \<mapsto> l, ''y'' \<mapsto> r]) = Inr (VBool (toBool l \<and> toBool r))
   \<and> evaluate ''x or y'' (Some [''x'' \<mapsto> l]) = Inl (UndefinedVariable ''y'')
   \<and> evaluate ''x and y'' (Some [''x'' \<mapsto> l]) = Inl (UndefinedVariable ''y'')
   \<and> evaluate ''true or y'' None = Inl (UndefinedVariable ''y'')
   \<and> evaluate ''false and y'' None = Inl (UndefinedVariable ''y'')
   \<and> ExpressionEvaluator_evaluate (tokenize ''x or f()'') [''x'' \<mapsto> l] [''f'' \<mapsto> g]
       = (case g [] of Inl e \<Rightarrow> Inl e | Inr r \<Rightarrow> Inr (VBool (toBool l \<or> toBool r)))
   \<and> ExpressionEvaluator_evaluate (tokenize ''x and f()'') [''x'' \<mapsto> l] [''f'' \<mapsto> g]
       = (case g [] of Inl e \<Rightarrow> Inl e | Inr r \<Rightarrow> Inr (VBool (toBool l \<and> toBool r)))"
  using orLoop_step [of ts i t vs fs left] andLoop_step [of ts i t vs fs left]
  by (intro conjI impI eval_x_or_y eval_x_and_y eval_x_or_undefined eval_x_and_undefined
      eval_true_or_undefined eval_false_and_undefined eval_x_or_call eval_x_and_call)
     (elim conjE, simp)+

text \<open>
  The loop steps of claim C3 at the inputs \<^verbatim>\<open>true or y\<close> and \<^verbatim>\<open>false and y\<close>, with the
  cursor on the operator and \<^verbatim>\<open>y\<close> undefined.
\<close>

lemma or_token_at_1: "currentToken (tokenize ''true or y'') (Suc 0) = Inr (Ident ''or'' 5)"
  by code_simp

lemma parseAnd_after_or:
  "parseAnd (tokenize ''true or y'') Map.empty Map.empty (Suc (Suc 0)) = Inl (UndefinedVariable ''y'')"
  by code_simp

lemma and_token_at_1: "currentToken (tokenize ''false and y'') (Suc 0) = Inr (Ident ''and'' 6)"
  by code_simp

lemma parseNot_after_and:
  "parseNot (tokenize ''false and y'') Map.empty Map.empty (Suc (Suc 0)) = Inl (UndefinedVariable ''y'')"
  by code_simp

theorem C3_no_short_circuit_witness:
  "orLoop (tokenize ''true or y'') Map.empty Map.empty (VBool True) 1
     = Inl (UndefinedVariable ''y'')
   \<and> andLoop (tokenize ''false and y'') Map.empty Map.empty (VBool False) 1
     = Inl (UndefinedVariable ''y'')"
  using C3_no_short_circuit [of "tokenize ''true or y''" 1 "Ident ''or'' 5" Map.empty Map.empty
      "VBool True"]
    C3_no_short_circuit [of "tokenize ''false and y''" 1 "Ident ''and'' 6" Map.empty Map.empty
      "VBool False"]
  by (simp add: or_token_at_1 parseAnd_after_or and_token_at_1 parseNot_after_and)

subsection \<open>Comparisons do not chain\<close>

lemma eval_chain: "evaluate ''1 < 2 < 3'' vars = Inr (VBool True)"
  by code_simp

lemma parse_chain:
  "parseOr (tokenize ''1 < 2 < 3'') (or_empty vars) Map.empty 0 = Inr (VBool True, 3)"
  by code_simp

lemma rest_chain: "drop 3 (tokenize ''1 < 2 < 3'') = [Op ''<'' 6, Num (Fin 3) 8, Eof 9]"
  by code_simp

definition comparison_operators :: "string list" where
  "comparison_operators = [''=='', ''!='', ''>'', ''<'', ''>='', ''<='']"

lemma compare_total:
  "op \<in> set comparison_operators \<Longrightarrow> \<exists>r. compare l (VStr op) r' = Inr r"
  by (auto simp: comparison_operators_def compare_def)

lemma comparison_not_arithmetic:
  assumes "op \<in> set comparison_operators"
  shows "\<not> is_mul_shape (OPERATOR, VStr op)" "\<not> is_add_shape (OPERATOR, VStr op)"
  using assms by (auto simp: comparison_operators_def is_mul_shape_def is_add_shape_def)

lemma comparison_chain:
  assumes sh: "map shape_of ts
      = add_shape a @ [(OPERATOR, VStr op1)] @ add_shape b @ (OPERATOR, VStr op2) # rest"
    and op1: "op1 \<in> set comparison_operators" and op2: "op2 \<in> set comparison_operators"
  shows "\<exists>r. compare (VNum (value_of a)) (VStr op1) (VNum (value_of b)) = Inr r
           \<and> parseOr ts vs fs 0
               = Inr (VBool r, length (add_shape a) + 1 + length (add_shape b))
           \<and> ExpressionEvaluator_evaluate ts vs fs = Inr (VBool r)"
proof -
  let ?o1 = "(OPERATOR, VStr op1)" and ?o2 = "(OPERATOR, VStr op2)"
  let ?k1 = "length (add_shape a)"
  let ?k2 = "?k1 + 1 + length (add_shape b)"
  have sha: "map shape_of ts = [] @ add_shape a @ (?o1 # add_shape b @ ?o2 # rest)"
    using sh by simp
  have shb: "map shape_of ts = (add_shape a @ [?o1]) @ add_shape b @ (?o2 # rest)"
    using sh by simp
  from token_after [OF sha] obtain t1
    where t1: "currentToken ts ?k1 = Inr t1" "shape_of t1 = ?o1" by auto
  from token_after [OF shb] obtain t2
    where t2: "currentToken ts ?k2 = Inr t2" "shape_of t2 = ?o2" by auto
  have "parseAdditive ts vs fs 0 = addLoop ts vs fs (VNum (value_of a)) ?k1"
    using parse_shapes(1) [OF sha] comparison_not_arithmetic(1) [OF op1] by simp
  then have left: "parseAdditive ts vs fs 0 = Inr (VNum (value_of a), ?k1)"
    using addLoop_stop [OF t1(1)] t1(2) comparison_not_arithmetic(2) [OF op1] by simp
  have "parseAdditive ts vs fs (?k1 + 1) = addLoop ts vs fs (VNum (value_of b)) ?k2"
    using parse_shapes(1) [OF shb] comparison_not_arithmetic(1) [OF op2] by simp
  then have right: "parseAdditive ts vs fs (?k1 + 1) = Inr (VNum (value_of b), ?k2)"
    using addLoop_stop [OF t2(1)] t2(2) comparison_not_arithmetic(2) [OF op2] by simp
  from compare_total [OF op1] obtain r
    where r: "compare (VNum (value_of a)) (VStr op1) (VNum (value_of b)) = Inr r" by blast
  have t1': "type t1 = OPERATOR" "val t1 = VStr op1"
    using t1(2) by (simp_all add: shape_of_def)
  have "val t1 \<in> set [VStr ''=='', VStr ''!='', VStr ''>'', VStr ''<'', VStr ''>='', VStr ''<='']"
    using op1 t1'(2) by (auto simp: comparison_operators_def)
  then have cmp: "parseComparison ts vs fs 0 = Inr (VBool r, ?k2)"
    using left right t1(1) t1' r by (subst parseComparison.simps) simp
  obtain h hs where hs: "add_shape a = h # hs" "fst h \<in> {NUMBER, PAREN_OPEN}"
    using shape_head(1) [of a] by (cases "add_shape a") auto
  have "map shape_of ts = [] @ (fst h, snd h) # (hs @ ?o1 # add_shape b @ ?o2 # rest)"
    using sh hs(1) by simp
  from token_at [OF this] obtain t0
    where t0: "currentToken ts 0 = Inr t0" "type t0 = fst h" by auto
  have "parseOr ts vs fs 0 = Inr (VBool r, ?k2)"
    using t0(1) _ cmp t2(1)
  proof (rule parseOr_of_parseComparison)
    show "type t0 \<noteq> IDENTIFIER" using t0(2) hs(2) by auto
    show "type t2 \<noteq> IDENTIFIER" using t2(2) by (simp add: shape_of_def)
  qed
  with r show ?thesis by (simp add: ExpressionEvaluator_evaluate_def)
qed

lemma shape_chain:
  "map shape_of (tokenize ''1 < 2 < 3'')
   = add_shape (Lit (Fin 1)) @ [(OPERATOR, VStr ''<'')] @ add_shape (Lit (Fin 2))
     @ (OPERATOR, VStr ''<'') # [(NUMBER, VNum (Fin 3)), (EOF, VStr [])]"
  by code_simp

text \<open>
  Claim C4. Comparisons do not chain. On the tokens of \<^verbatim>\<open>a op1 b op2 ...\<close>, for any arithmetic
  expressions \<open>a\<close> and \<open>b\<close>, any comparison operators \<open>op1\<close> and \<open>op2\<close> and any tokens
  after \<open>op2\<close>, the top-level parse raises nothing and returns the Boolean result of
  \<^verbatim>\<open>a op1 b\<close> with the cursor on \<open>op2\<close>: the second operator and everything after it are
  left unconsumed, and \<^verbatim>\<open>evaluate()\<close> returns that Boolean. \<^verbatim>\<open>1 < 2 < 3\<close> evaluates to
  true, the result of \<^verbatim>\<open>1 < 2\<close>, with the cursor at index 3, before the tokens of \<^verbatim>\<open>< 3\<close>
  and the end of input.
\<close>

theorem C4_comparisons_do_not_chain:
  "(map shape_of ts
      = add_shape a @ [(OPERATOR, VStr op1)] @ add_shape b @ (OPERATOR, VStr op2) # rest
    \<and> op1 \<in> set comparison_operators \<and> op2 \<in> set comparison_operators \<longrightarrow>
      (\<exists>r. compare (VNum (value_of a)) (VStr op1) (VNum (value_of b)) = Inr r
         \<and> parseOr ts vs fs 0
             = Inr (VBool r, length (add_shape a) + 1 + length (add_shape b))
         \<and> ExpressionEvaluator_evaluate ts vs fs = Inr (VBool r)))
   \<and> evaluate ''1 < 2 < 3'' vars = Inr (VBool True)
   \<and> parseOr (tokenize ''1 < 2 < 3'') (or_empty vars) Map.empty 0 = Inr (VBool True, 3)
   \<and> drop 3 (tokenize ''1 < 2 < 3'') = [Op ''<'' 6, Num (Fin 3) 8, Eof 9]"
  using comparison_chain [of ts a op1 b op2 rest vs fs]
  by (intro conjI impI eval_chain parse_chain rest_chain) (elim conjE, simp)

text \<open>Claim C4 at the tokens of \<^verbatim>\<open>1 < 2 < 3\<close>.\<close>

lemma compare_1_lt_2: "compare (VNum (Fin 1)) (VStr ''<'') (VNum (Fin 2)) = Inr True"
  by code_simp

lemma less_is_comparison: "''<'' \<in> set comparison_operators"
  by code_simp

theorem C4_comparisons_do_not_chain_witness:
  "parseOr (tokenize ''1 < 2 < 3'') Map.empty Map.empty 0 = Inr (VBool True, 3)
   \<and> ExpressionEvaluator_evaluate (tokenize ''1 < 2 < 3'') Map.empty Map.empty
       = Inr (VBool True)"
proof -
  let ?ts = "tokenize ''1 < 2 < 3''"
  from C4_comparisons_do_not_chain [of ?ts "Lit (Fin 1)" "''<''" "Lit (Fin 2)" "''<''"
      "[(NUMBER, VNum (Fin 3)), (EOF, VStr [])]" Map.empty Map.empty]
    shape_chain less_is_comparison
  obtain r where r: "compare (VNum (value_of (Lit (Fin 1)))) (VStr ''<'')
        (VNum (value_of (Lit (Fin 2)))) = Inr r"
    and p: "parseOr ?ts Map.empty Map.empty 0
        = Inr (VBool r, length (add_shape (Lit (Fin 1))) + 1 + length (add_shape (Lit (Fin 2))))"
    and e: "ExpressionEvaluator_evaluate ?ts Map.empty Map.empty = Inr (VBool r)"
    by blast
  from r have "r = True" by (simp add: compare_1_lt_2)
  with p e show ?thesis by simp
qed

subsection \<open>Negative literals and subtraction\<close>

lemma skipWhitespace_id:
  "currentChar input pos = Some c \<Longrightarrow> \<not> is_space c \<Longrightarrow> skipWhitespace input pos = pos"
  by (subst skipWhitespace.simps) simp

lemma negative_context_last:
  "negative_context tokens =
     (tokens = [] \<or> type (last tokens) = PAREN_OPEN \<or> type (last tokens) = OPERATOR
      \<or> type (last tokens) = COMMA)"
  by (cases "tokens = []") (simp_all add: negative_context_def last_conv_nth)

lemma minus_char_class:
  "\<not> is_space CHR ''-''" "\<not> is_digit CHR ''-''" "\<not> is_ident_start CHR ''-''"
  "is_operator_char CHR ''-''"
  by (simp_all add: is_space_def is_digit_def is_ident_start_def is_operator_char_def)

lemma minus_before_digit:
  assumes "currentChar input pos = Some a"
    and "currentChar input (skipWhitespace input pos) = Some CHR ''-''"
    and "peek input (skipWhitespace input pos) 1 = Some d" "is_digit d"
  shows "tokenize_loop input pos tokens warnings =
           (if tokens = [] \<or> type (last tokens) = PAREN_OPEN \<or> type (last tokens) = OPERATOR
               \<or> type (last tokens) = COMMA
            then (case number_loop input (skipWhitespace input pos + 1) [] of
                    (numStr, pos') \<Rightarrow>
                      tokenize_loop input pos'
                        (tokens @ [Num (num_neg (parseFloat numStr)) (skipWhitespace input pos + 1)])
                        warnings)
            else tokenize_loop input (skipWhitespace input pos + 1)
                   (tokens @ [Op ''-'' (skipWhitespace input pos)]) warnings)"
proof -
  define p where "p = skipWhitespace input pos"
  have c: "currentChar input p = Some CHR ''-''"
    using assms(2) by (simp add: p_def)
  have nd: "next_is_digit input p"
    using assms(3,4) by (simp add: next_is_digit_def p_def)
  have op: "operator input p CHR ''-'' = (Op ''-'' p, p + 1)"
    using assms(3) by (simp add: operator_def p_def)
  show ?thesis
    unfolding p_def [symmetric]
    by (subst tokenize_loop.simps)
      (simp add: assms(1) p_def [symmetric] c nd op minus_char_class
        negative_context_last [symmetric] number_def split: prod.splits)
qed

lemma tokenize_5_minus_3: "tokenize ''5-3'' = [Num (Fin 5) 0, Op ''-'' 1, Num (Fin 3) 2, Eof 3]"
  by code_simp

lemma tokenize_paren_minus_3:
  "tokenize ''(-3) + 5''
   = [Open 0, Num (Fin (- 3)) 2, Close 3, Op ''+'' 5, Num (Fin 5) 7, Eof 8]"
  by code_simp

lemma tokenize_x_minus_3: "tokenize ''x-3'' = [Ident ''x'' 0, Op ''-'' 1, Num (Fin 3) 2, Eof 3]"
  by code_simp

lemma tokenize_close_minus_3:
  "tokenize ''(1)-3''
   = [Open 0, Num (Fin 1) 1, Close 2, Op ''-'' 3, Num (Fin 3) 4, Eof 5]"
  by code_simp

lemma tokenize_times_minus_3:
  "tokenize ''2*-3'' = [Num (Fin 2) 0, Op ''*'' 1, Num (Fin (- 3)) 3, Eof 4]"
  by code_simp

lemma tokenize_comma_minus_3:
  "tokenize ''f(1,-3)''
   = [Ident ''f'' 0, Open 1, Num (Fin 1) 2, \<lparr>type = COMMA, val = VStr '','', position = 3\<rparr>,
      Num (Fin (- 3)) 5, Close 6, Eof 7]"
  by code_simp

lemma tokenize_5_space_minus_3:
  "tokenize ''5 -3'' = [Num (Fin 5) 0, Op ''-'' 2, Num (Fin 3) 3, Eof 4]"
  by code_simp

lemma tokenize_paren_space_minus_3:
  "tokenize ''( -3)'' = [Open 0, Num (Fin (- 3)) 3, Close 4, Eof 5]"
  by code_simp

lemma tokenize_minus_space_3:
  "tokenize ''(- 3)'' = [Open 0, Op ''-'' 1, Num (Fin 3) 3, Close 4, Eof 5]"
  by code_simp

lemma eval_5_minus_3: "evaluate ''5-3'' vars = Inr (VNum (Fin 2))"
  by code_simp

lemma eval_paren_minus_3_plus_5: "evaluate ''(-3) + 5'' vars = Inr (VNum (Fin 2))"
  by code_simp

text \<open>
  Claim C5. When the next character after the white space at the cursor is a \<^verbatim>\<open>-\<close> that
  a digit follows at once, the main loop appends a single Number token, the negated
  value of the digits and dots that follow, exactly when no token has been produced
  yet or the last one is an open parenthesis, an operator or a comma; in every other
  case it appends the operator \<^verbatim>\<open>-\<close>. So \<^verbatim>\<open>5-3\<close>, \<^verbatim>\<open>5 -3\<close>, \<^verbatim>\<open>x-3\<close> and \<^verbatim>\<open>(1)-3\<close> hold the
  operator, \<^verbatim>\<open>(-3)\<close>, \<^verbatim>\<open>( -3)\<close>, \<^verbatim>\<open>2*-3\<close> and \<^verbatim>\<open>f(1,-3)\<close> hold the Number -3, \<^verbatim>\<open>(- 3)\<close>,
  where a space follows the \<^verbatim>\<open>-\<close>, holds the operator, and \<^verbatim>\<open>5-3\<close> and \<^verbatim>\<open>(-3) + 5\<close> both
  evaluate to 2.
\<close>

theorem C5_negative_literal_or_subtraction:
  "(currentChar input pos = Some a
      \<and> currentChar input (skipWhitespace input pos) = Some CHR ''-''
      \<and> peek input (skipWhitespace input pos) 1 = Some d \<and> is_digit d \<longrightarrow>
      tokenize_loop input pos tokens warnings =
        (if tokens = [] \<or> type (last tokens) = PAREN_OPEN \<or> type (last tokens) = OPERATOR
            \<or> type (last tokens) = COMMA
         then (case number_loop input (skipWhitespace input pos + 1) [] of
                 (numStr, pos') \<Rightarrow>
                   tokenize_loop input pos'
                     (tokens @ [Num (num_neg (parseFloat numStr)) (skipWhitespace input pos + 1)])
                     warnings)
         else tokenize_loop input (skipWhitespace input pos + 1)
                (tokens @ [Op ''-'' (skipWhitespace input pos)]) warnings))
   \<and> tokenize ''5-3'' = [Num (Fin 5) 0, Op ''-'' 1, Num (Fin 3) 2, Eof 3]
   \<and> tokenize ''(-3) + 5''
       = [Open 0, Num (Fin (- 3)) 2, Close 3, Op ''+'' 5, Num (Fin 5) 7, Eof 8]
   \<and> tokenize ''x-3'' = [Ident ''x'' 0, Op ''-'' 1, Num (Fin 3) 2, Eof 3]
   \<and> tokenize ''(1)-3''
       = [Open 0, Num (Fin 1) 1, Close 2, Op ''-'' 3, Num (Fin 3) 4, Eof 5]
   \<and> tokenize ''2*-3'' = [Num (Fin 2) 0, Op ''*'' 1, Num (Fin (- 3)) 3, Eof 4]
   \<and> tokenize ''f(1,-3)''
       = [Ident ''f'' 0, Open 1, Num (Fin 1) 2,
          \<lparr>type = COMMA, val = VStr '','', position = 3\<rparr>, Num (Fin (- 3)) 5, Close 6, Eof 7]
   \<and> tokenize ''5 -3'' = [Num (Fin 5) 0, Op ''-'' 2, Num (Fin 3) 3, Eof 4]
   \<and> tokenize ''( -3)'' = [Open 0, Num (Fin (- 3)) 3, Close 4, Eof 5]
   \<and> tokenize ''(- 3)'' = [Open 0, Op ''-'' 1, Num (Fin 3) 3, Close 4, Eof 5]
   \<and> evaluate ''5-3'' vars = Inr (VNum (Fin 2))
   \<and> evaluate ''(-3) + 5'' vars = Inr (VNum (Fin 2))"
  using minus_before_digit [of input pos a d tokens warnings]
  by (intro conjI impI tokenize_5_minus_3 tokenize_paren_minus_3 tokenize_x_minus_3
      tokenize_close_minus_3 tokenize_times_minus_3 tokenize_comma_minus_3
      tokenize_5_space_minus_3 tokenize_paren_space_minus_3 tokenize_minus_space_3
      eval_5_minus_3 eval_paren_minus_3_plus_5)
     (elim conjE, simp)

text \<open>
  The two cases of claim C5 at concrete inputs: the \<^verbatim>\<open>-\<close> of \<^verbatim>\<open>5 -3\<close> after the Number 5
  and a space, and the \<^verbatim>\<open>-\<close> of \<^verbatim>\<open>-3\<close> with no token before it.
\<close>

lemma space_at_1: "currentChar ''5 -3'' (Suc 0) = Some CHR '' ''"
  by code_simp

lemma skip_at_1: "skipWhitespace ''5 -3'' (Suc 0) = Suc (Suc 0)"
  by code_simp

lemma minus_at_2: "currentChar ''5 -3'' (Suc (Suc 0)) = Some CHR ''-''"
  by code_simp

lemma digit_after_2: "peek ''5 -3'' (Suc (Suc 0)) (Suc 0) = Some CHR ''3''"
  by code_simp

lemma minus_at_0: "currentChar ''-3'' 0 = Some CHR ''-''"
  by code_simp

lemma skip_at_0: "skipWhitespace ''-3'' 0 = 0"
  by code_simp

lemma digit_after_0: "peek ''-3'' 0 (Suc 0) = Some CHR ''3''"
  by code_simp

lemma digit_3: "is_digit CHR ''3''"
  by code_simp

lemma number_loop_after_minus: "number_loop ''-3'' (Suc 0) [] = (''3'', Suc (Suc 0))"
  by code_simp

lemma parseFloat_3: "parseFloat ''3'' = Fin 3"
  by code_simp

theorem C5_negative_literal_or_subtraction_witness:
  "tokenize_loop ''5 -3'' (Suc 0) [Num (Fin 5) 0] []
     = tokenize_loop ''5 -3'' (Suc (Suc (Suc 0))) [Num (Fin 5) 0, Op ''-'' (Suc (Suc 0))] []
   \<and> tokenize_loop ''-3'' 0 [] []
     = tokenize_loop ''-3'' (Suc (Suc 0)) [Num (Fin (- 3)) (Suc 0)] []"
  using C5_negative_literal_or_subtraction
      [of "''5 -3''" "Suc 0" "CHR '' ''" "CHR ''3''" "[Num (Fin 5) 0]" "[]"]
    C5_negative_literal_or_subtraction [of "''-3''" 0 "CHR ''-''" "CHR ''3''" "[]" "[]"]
  by (simp add: space_at_1 skip_at_1 minus_at_2 digit_after_2 minus_at_0 skip_at_0
      digit_after_0 digit_3 number_loop_after_minus parseFloat_3)

subsection \<open>Compiled expressions\<close>

lemma compile_test_first:
  "compile ''a * b + c'' (Some [''a'' \<mapsto> VNum (Fin 2), ''b'' \<mapsto> VNum (Fin 3), ''c'' \<mapsto> VNum (Fin 1)])
   = Inr (VNum (Fin 7))"
  by code_simp

lemma compile_test_second:
  "compile ''a * b + c'' (Some [''a'' \<mapsto> VNum (Fin 5), ''b'' \<mapsto> VNum (Fin 2), ''c'' \<mapsto> VNum (Fin 10)])
   = Inr (VNum (Fin 20))"
  by code_simp

text \<open>
  Claim C6. The function that \<^verbatim>\<open>compile(e)\<close> returns, applied to \<open>v1\<close>, then to \<open>v2\<close>
  and to \<open>v1\<close> again, returns what the independent calls \<^verbatim>\<open>evaluate(e, v1)\<close>,
  \<^verbatim>\<open>evaluate(e, v2)\<close> and \<^verbatim>\<open>evaluate(e, v1)\<close> return: each invocation runs \<^verbatim>\<open>parseOr\<close>
  from cursor 0 over the tokens of \<open>e\<close> with the variables of that invocation and no
  functions, and nothing of one invocation reaches the next.
  The two invocations of the test suite on \<^verbatim>\<open>a * b + c\<close> return 7 and 20.
\<close>

theorem C6_compile_agrees_with_evaluate:
  "(let f = compile e in (f v1, f v2, f v1)) = (evaluate e v1, evaluate e v2, evaluate e v1)
   \<and> compile e v
       = (case parseOr (tokenize e) (or_empty v) Map.empty 0 of
            Inl err \<Rightarrow> Inl err
          | Inr (x, i) \<Rightarrow> Inr x)
   \<and> (let f = compile ''a * b + c''
      in (f (Some [''a'' \<mapsto> VNum (Fin 2), ''b'' \<mapsto> VNum (Fin 3), ''c'' \<mapsto> VNum (Fin 1)]),
          f (Some [''a'' \<mapsto> VNum (Fin 5), ''b'' \<mapsto> VNum (Fin 2), ''c'' \<mapsto> VNum (Fin 10)])))
     = (Inr (VNum (Fin 7)), Inr (VNum (Fin 20)))"
  by (simp add: compile_test_first compile_test_second)
     (simp add: compile_def evaluate_def ExpressionEvaluator_evaluate_def)

subsection \<open>The empty expression\<close>

text \<open>
  Claim C7, counterexample. The standalone \<^verbatim>\<open>evaluate("")\<close> has no special case for the
  empty string: it tokenizes it to the single end-of-input token, and \<^verbatim>\<open>parsePrimary\<close>
  throws \<^verbatim>\<open>Unexpected token: EOF at position 0\<close>.
\<close>

theorem C7_standalone_evaluate_of_empty_string_fails:
  "evaluate [] None = Inl (UnexpectedToken EOF 0)"
  by code_simp

text \<open>
  Claim C7, as amended. Through the facade, \<^verbatim>\<open>Parser.parse("").evaluate(vars)\<close> and
  \<^verbatim>\<open>Parser.evaluate("", vars)\<close> return the Boolean true for every parser and every
  variables argument, by the test \<^verbatim>\<open>expression === ''\<close> that precedes the tokenizing.
\<close>

theorem C7_facade_empty_expression_is_true:
  "Parser_parse self [] vars = Inr (VBool True)
   \<and> Parser_evaluate self [] vars = Inr (VBool True)"
  by (simp add: Parser_parse_def Parser_evaluate_def)

subsection \<open>Tokenizer totality\<close>

lemma number_type: "type (fst (number input pos)) = NUMBER"
  by (simp add: number_def split: prod.splits)

lemma string_token_type: "type (fst (string_token input pos)) = STRING"
  by (simp add: string_token_def Let_def split: prod.splits)

lemma identifier_token_type: "type (fst (identifier_token input pos)) \<noteq> EOF"
  by (simp add: identifier_token_def Let_def split: prod.splits)

lemma operator_type: "type (fst (operator input pos c)) = OPERATOR"
  by (simp add: operator_def Let_def split: option.splits)

text \<open>One iteration of the main loop, branch by branch.\<close>

lemma loop_end: "currentChar input pos = None \<Longrightarrow>
    tokenize_loop input pos tokens warnings = (pos, tokens, warnings)"
  by (subst tokenize_loop.simps) simp

lemma loop_break:
  "currentChar input pos = Some a \<Longrightarrow> currentChar input (skipWhitespace input pos) = None \<Longrightarrow>
    tokenize_loop input pos tokens warnings = (skipWhitespace input pos, tokens, warnings)"
  by (subst tokenize_loop.simps) simp

lemma loop_step:
  assumes "currentChar input pos = Some a"
    and "currentChar input (skipWhitespace input pos) = Some c"
  shows "\<exists>pos2 toks ws.
           tokenize_loop input pos tokens warnings
             = tokenize_loop input pos2 (tokens @ toks) (warnings @ ws)
           \<and> skipWhitespace input pos < pos2 \<and> EOF \<notin> type ` set toks"
proof -
  define p where "p = skipWhitespace input pos"
  have c: "currentChar input p = Some c" using assms(2) by (simp add: p_def)
  define neg where "neg = (c = CHR ''-'' \<and> next_is_digit input p \<and> negative_context tokens)"
  define quote where "quote = (c = CHR 0x22 \<or> c = CHR 0x27)"
  note unfold = tokenize_loop.simps [of input pos tokens warnings]
  note folds = p_def [symmetric] neg_def [symmetric] quote_def [symmetric] case_prod_beta
  consider (digit) "is_digit c"
    | (negative) "\<not> is_digit c" "neg"
    | (quoted) "\<not> is_digit c" "\<not> neg"
        "quote"
    | (ident) "\<not> is_digit c" "\<not> neg"
        "\<not> quote" "is_ident_start c"
    | (punct) "\<not> is_digit c" "\<not> neg"
        "\<not> quote" "\<not> is_ident_start c"
        "c = CHR ''('' \<or> c = CHR '')'' \<or> c = CHR '',''"
    | (oper) "\<not> is_digit c" "\<not> neg"
        "\<not> quote" "\<not> is_ident_start c"
        "\<not> (c = CHR ''('' \<or> c = CHR '')'' \<or> c = CHR '','')" "is_operator_char c"
    | (unknown) "\<not> is_digit c" "\<not> neg"
        "\<not> quote" "\<not> is_ident_start c"
        "\<not> (c = CHR ''('' \<or> c = CHR '')'' \<or> c = CHR '','')" "\<not> is_operator_char c"
    by blast
  then show ?thesis
  proof cases
    case digit
    have "tokenize_loop input pos tokens warnings
          = tokenize_loop input (snd (number input p)) (tokens @ [fst (number input p)]) (warnings @ [])"
      using assms(1) c digit by (simp add: unfold folds)
    moreover have "p < snd (number input p)" using c digit by (rule number_gt)
    ultimately show ?thesis using number_type [of input p] unfolding p_def by fastforce
  next
    case negative
    have "tokenize_loop input pos tokens warnings
          = tokenize_loop input (snd (number input (p + 1)))
              (tokens @ [(fst (number input (p + 1)))\<lparr>val := js_negate (val (fst (number input (p + 1))))\<rparr>])
              (warnings @ [])"
      using assms(1) c negative by (simp add: unfold folds)
    moreover have "p < snd (number input (p + 1))" using number_ge [of "p + 1" input] by simp
    ultimately show ?thesis using number_type [of input "p + 1"] unfolding p_def by fastforce
  next
    case quoted
    have "tokenize_loop input pos tokens warnings
          = tokenize_loop input (snd (string_token input p)) (tokens @ [fst (string_token input p)])
              (warnings @ [])"
      using assms(1) c quoted by (simp add: unfold folds)
    moreover have "p < snd (string_token input p)" by (rule string_token_gt)
    ultimately show ?thesis using string_token_type [of input p] unfolding p_def by fastforce
  next
    case ident
    have "tokenize_loop input pos tokens warnings
          = tokenize_loop input (snd (identifier_token input p))
              (tokens @ [fst (identifier_token input p)]) (warnings @ [])"
      using assms(1) c ident by (simp add: unfold folds)
    moreover have "p < snd (identifier_token input p)" using c ident(4) by (rule identifier_token_gt)
    ultimately show ?thesis using identifier_token_type [of input p] unfolding p_def by fastforce
  next
    case punct
    have "\<exists>t. tokenize_loop input pos tokens warnings
              = tokenize_loop input (p + 1) (tokens @ [t]) (warnings @ []) \<and> type t \<noteq> EOF"
      using assms(1) c punct by (auto simp: unfold folds)
    then show ?thesis unfolding p_def by fastforce
  next
    case oper
    have "tokenize_loop input pos tokens warnings
          = tokenize_loop input (snd (operator input p c)) (tokens @ [fst (operator input p c)])
              (warnings @ [])"
      using assms(1) c oper by (simp add: unfold folds)
    moreover have "p < snd (operator input p c)" by (rule operator_gt)
    ultimately show ?thesis using operator_type [of input p c] unfolding p_def by fastforce
  next
    case unknown
    have "tokenize_loop input pos tokens warnings
          = tokenize_loop input (p + 1) (tokens @ []) (warnings @ [(p, c)])"
      using assms(1) c unknown by (simp add: unfold folds)
    then show ?thesis unfolding p_def by (metis empty_iff image_empty lessI list.set(1) Suc_eq_plus1)
  qed
qed

lemma tokenize_loop_no_EOF:
  "EOF \<notin> type ` set tokens
     \<Longrightarrow> EOF \<notin> type ` set (fst (snd (tokenize_loop input pos tokens warnings)))"
proof (induction "length input - pos" arbitrary: pos tokens warnings rule: less_induct)
  case less
  show ?case
  proof (cases "currentChar input pos")
    case None
    then show ?thesis using less.prems by (simp add: loop_end)
  next
    case (Some a)
    show ?thesis
    proof (cases "currentChar input (skipWhitespace input pos)")
      case None
      with Some show ?thesis using less.prems by (simp add: loop_break)
    next
      case (Some c)
      from loop_step [OF \<open>currentChar input pos = Some a\<close> Some, of tokens warnings]
      obtain pos2 toks ws where
        eq: "tokenize_loop input pos tokens warnings
               = tokenize_loop input pos2 (tokens @ toks) (warnings @ ws)"
        and lt: "skipWhitespace input pos < pos2" and ne: "EOF \<notin> type ` set toks"
        by blast
      have "length input - pos2 < length input - pos"
        using \<open>currentChar input pos = Some a\<close> lt by (rule loop_measure)
      moreover have "EOF \<notin> type ` set (tokens @ toks)" using less.prems ne by auto
      ultimately show ?thesis using less.hyps [of pos2 "tokens @ toks" "warnings @ ws"] eq by simp
    qed
  qed
qed

text \<open>
  Claim C8. \<open>tokenize\<close> is a total function of the source string: its loops terminate
  (the termination proofs above), none of its branches raises, and its result is a
  function of the source alone. For every source the result is a sequence of tokens
  none of which is the end-of-input token, followed by exactly one end-of-input token.
  An unrecognized character is skipped with a warning: \<^verbatim>\<open>2 # 3\<close> gives the two Numbers,
  the end-of-input token and one warning, for the \<^verbatim>\<open>#\<close> at position 2.
\<close>

theorem C8_tokenize_total_single_EOF:
  "(\<exists>tokens pos. tokenize source = tokens @ [Eof pos] \<and> EOF \<notin> type ` set tokens)
   \<and> tokenize_run ''2 # 3'' = ([Num (Fin 2) 0, Num (Fin 3) 4, Eof 5], [(2, CHR ''#'')])"
proof
  obtain pos tokens warnings where r: "tokenize_loop (trim source) 0 [] [] = (pos, tokens, warnings)"
    by (cases "tokenize_loop (trim source) 0 [] []") auto
  have "EOF \<notin> type ` set tokens"
    using tokenize_loop_no_EOF [of "[]" "trim source" 0 "[]"] r by simp
  moreover have "tokenize source = tokens @ [Eof pos]"
    by (simp add: tokenize_def tokenize_run_def r)
  ultimately show "\<exists>tokens pos. tokenize source = tokens @ [Eof pos] \<and> EOF \<notin> type ` set tokens"
    by blast
  show "tokenize_run ''2 # 3'' = ([Num (Fin 2) 0, Num (Fin 3) 4, Eof 5], [(2, CHR ''#'')])"
    by code_simp
qed

subsection \<open>Malformed numeric literals\<close>

lemma number_loop_all:
  "\<forall>c \<in> set (drop pos s). is_number_char c
     \<Longrightarrow> number_loop s pos acc = (acc @ drop pos s, max pos (length s))"
proof (induction "length s - pos" arbitrary: pos acc rule: less_induct)
  case less
  show ?case
  proof (cases "pos < length s")
    case False
    then show ?thesis by (subst number_loop.simps) (simp add: currentChar_def)
  next
    case True
    then have d: "drop pos s = s ! pos # drop (pos + 1) s"
      by (simp add: Cons_nth_drop_Suc)
    with less.prems have nc: "is_number_char (s ! pos)"
      and rest: "\<forall>c \<in> set (drop (pos + 1) s). is_number_char c" by simp_all
    have "number_loop s pos acc = number_loop s (pos + 1) (acc @ [s ! pos])"
      using True nc by (subst number_loop.simps) (simp add: currentChar_def)
    also have "\<dots> = ((acc @ [s ! pos]) @ drop (pos + 1) s, max (pos + 1) (length s))"
      using True by (intro less.hyps rest) simp
    finally show ?thesis using True d by simp
  qed
qed

lemma not_space_digit: "is_digit c \<Longrightarrow> \<not> is_space c"
  by (auto simp: is_digit_def is_space_def)

lemma not_space_number_char: "is_number_char c \<Longrightarrow> \<not> is_space c"
  by (auto simp: is_number_char_def is_space_def)

lemma trim_no_space: "\<forall>c \<in> set s. \<not> is_space c \<Longrightarrow> trim s = s"
proof -
  assume a: "\<forall>c \<in> set s. \<not> is_space c"
  have "dropWhile is_space s = s" using a by (cases s) simp_all
  moreover have "dropWhile is_space (rev s) = rev s" using a by (cases "rev s") auto
  ultimately show ?thesis by (simp add: trim_def)
qed

lemma unsigned_decimal_not_NaN: "unsigned_decimal negative s = Some (n, r) \<Longrightarrow> n \<noteq> NaN"
  by (auto simp: unsigned_decimal_def Let_def signed_inf_def mk_num_def signed_zero_def
      split: if_splits prod.splits)

lemma unsigned_decimal_digit_first:
  "is_digit c \<Longrightarrow> unsigned_decimal negative (c # cs) \<noteq> None"
  by (auto simp: unsigned_decimal_def Let_def split: prod.splits)

lemma parseFloat_digit_first:
  assumes "is_digit c"
  shows "parseFloat (c # cs) \<noteq> NaN"
proof -
  from assms have c: "c \<noteq> CHR ''-''" "c \<noteq> CHR ''+''" "\<not> is_space c"
    by (auto simp: is_digit_def is_space_def)
  from unsigned_decimal_digit_first [OF assms]
  obtain n r where u: "unsigned_decimal False (c # cs) = Some (n, r)" by fastforce
  then have "parseFloat (c # cs) = n"
    using c by (simp add: parseFloat_def trim_start_def decimal_prefix_def starts_with_def)
  with unsigned_decimal_not_NaN [OF u] show ?thesis by simp
qed

lemma tokenize_number_literal:
  assumes "is_digit c" "\<forall>d \<in> set cs. is_number_char d"
  shows "tokenize (c # cs) = [Num (parseFloat (c # cs)) 0, Eof (length (c # cs))]"
proof -
  let ?s = "c # cs"
  have all: "\<forall>d \<in> set ?s. is_number_char d"
    using assms is_digit_number_char by simp
  then have tr: "trim ?s = ?s" by (intro trim_no_space) (auto dest: not_space_number_char)
  have cc: "currentChar ?s 0 = Some c" by (simp add: currentChar_def)
  have sk: "skipWhitespace ?s 0 = 0"
    using cc assms(1) by (subst skipWhitespace.simps) (simp add: not_space_digit)
  have nl: "number_loop ?s 0 [] = (?s, length ?s)"
    using number_loop_all [of 0 ?s "[]"] all by simp
  have "tokenize_loop ?s 0 [] [] = tokenize_loop ?s (length ?s) [Num (parseFloat ?s) 0] []"
    using cc sk assms(1) nl by (subst tokenize_loop.simps) (simp add: number_def)
  also have "\<dots> = (length ?s, [Num (parseFloat ?s) 0], [])"
    by (rule loop_end) (simp add: currentChar_def)
  finally show ?thesis by (simp add: tokenize_def tokenize_run_def tr)
qed

lemma tokenize_1_2_3: "tokenize ''1.2.3'' = [Num (Fin (6 / 5)) 0, Eof 5]"
  by code_simp

text \<open>
  Claim C9, counterexample. The Number token of \<^verbatim>\<open>1.2.3\<close> has the value 1.2, not \<open>NaN\<close>:
  \<^verbatim>\<open>parseFloat\<close> converts the longest prefix that is a decimal literal.
\<close>

theorem C9_multi_dot_literal_value_is_not_NaN:
  "map val (tokenize ''1.2.3'') = [VNum (Fin (6 / 5)), VStr []]"
  by code_simp

text \<open>
  Claim C9, as amended. A source that starts with a digit and consists of digits and
  dots, however many dots, is consumed as one Number token at position 0, followed by
  the end-of-input token; the value of the token is \<^verbatim>\<open>parseFloat\<close> of the whole literal,
  which is never \<open>NaN\<close>. For \<^verbatim>\<open>1.2.3\<close> the value is 1.2.
\<close>

theorem C9_multi_dot_literal_is_one_number_token:
  "(is_digit c \<and> (\<forall>d \<in> set cs. is_number_char d) \<longrightarrow>
      tokenize (c # cs) = [Num (parseFloat (c # cs)) 0, Eof (length (c # cs))]
      \<and> parseFloat (c # cs) \<noteq> NaN)
   \<and> parseFloat ''1.2.3'' = Fin (6 / 5)
   \<and> tokenize ''1.2.3'' = [Num (Fin (6 / 5)) 0, Eof 5]"
proof (intro conjI impI)
  assume "is_digit c \<and> (\<forall>d \<in> set cs. is_number_char d)"
  then show "tokenize (c # cs) = [Num (parseFloat (c # cs)) 0, Eof (length (c # cs))]"
    and "parseFloat (c # cs) \<noteq> NaN"
    using tokenize_number_literal [of c cs] parseFloat_digit_first [of c cs] by simp_all
next
  show "parseFloat ''1.2.3'' = Fin (6 / 5)" by code_simp
next
  show "tokenize ''1.2.3'' = [Num (Fin (6 / 5)) 0, Eof 5]" by (rule tokenize_1_2_3)
qed

text \<open>Claim C9 as amended, at the literal \<^verbatim>\<open>1.2.3\<close>.\<close>

theorem C9_multi_dot_literal_is_one_number_token_witness:
  "tokenize ''1.2.3'' = [Num (parseFloat ''1.2.3'') 0, Eof 5] \<and> parseFloat ''1.2.3'' \<noteq> NaN"
  using C9_multi_dot_literal_is_one_number_token [of "CHR ''1''" "''.2.3''"]
  by (simp add: is_digit_def is_number_char_def)

subsection \<open>Function call arguments\<close>

abbreviation Comma :: "nat \<Rightarrow> token" where
  "Comma p \<equiv> \<lparr>type = COMMA, val = VStr '','', position = p\<rparr>"

lemma argsLoop_collect:
  assumes "currentToken ts i = Inr t" "type t \<noteq> PAREN_CLOSE" "type t \<noteq> EOF"
    and "parseOr ts vs fs i = Inr (v, j)" "currentToken ts j = Inr t'"
  shows "argsLoop ts vs fs args i
         = argsLoop ts vs fs (args @ [v]) (if type t' = COMMA then j + 1 else j)"
  using assms by (subst argsLoop.simps) simp

lemma argsLoop_stop:
  assumes "currentToken ts i = Inr t" "type t = PAREN_CLOSE \<or> type t = EOF"
  shows "argsLoop ts vs fs args i = Inr (args, i)"
  using assms by (subst argsLoop.simps) auto

lemma tokenize_call_no_comma:
  "tokenize ''f(1 2)'' = [Ident ''f'' 0, Open 1, Num (Fin 1) 2, Num (Fin 2) 4, Close 5, Eof 6]"
  by code_simp

lemma tokenize_call_comma:
  "tokenize ''f(1, 2)''
   = [Ident ''f'' 0, Open 1, Num (Fin 1) 2, Comma 3, Num (Fin 2) 5, Close 6, Eof 7]"
  by code_simp

lemma tokenize_call_trailing_comma:
  "tokenize ''f(1, 2,)''
   = [Ident ''f'' 0, Open 1, Num (Fin 1) 2, Comma 3, Num (Fin 2) 5, Comma 6, Close 7, Eof 8]"
  by code_simp

lemma tokenize_call_unclosed:
  "tokenize ''f(1, 2'' = [Ident ''f'' 0, Open 1, Num (Fin 1) 2, Comma 3, Num (Fin 2) 5, Eof 6]"
  by code_simp

lemma call_no_comma:
  "ExpressionEvaluator_evaluate (tokenize ''f(1 2)'') vs [''f'' \<mapsto> g]
   = g [VNum (Fin 1), VNum (Fin 2)]"
  unfolding tokenize_call_no_comma
  by (cases "g [VNum (Fin 1), VNum (Fin 2)]") (simp_all add: parse_simps)

lemma call_comma:
  "ExpressionEvaluator_evaluate (tokenize ''f(1, 2)'') vs [''f'' \<mapsto> g]
   = g [VNum (Fin 1), VNum (Fin 2)]"
  unfolding tokenize_call_comma
  by (cases "g [VNum (Fin 1), VNum (Fin 2)]") (simp_all add: parse_simps)

lemma call_trailing_comma:
  "ExpressionEvaluator_evaluate (tokenize ''f(1, 2,)'') vs [''f'' \<mapsto> g]
   = g [VNum (Fin 1), VNum (Fin 2)]"
  unfolding tokenize_call_trailing_comma
  by (cases "g [VNum (Fin 1), VNum (Fin 2)]") (simp_all add: parse_simps)

lemma call_unclosed:
  "ExpressionEvaluator_evaluate (tokenize ''f(1, 2'') vs [''f'' \<mapsto> g]
   = g [VNum (Fin 1), VNum (Fin 2)]"
  unfolding tokenize_call_unclosed
  by (cases "g [VNum (Fin 1), VNum (Fin 2)]") (simp_all add: parse_simps)

text \<open>
  Claim C10. The argument loop of a function call: on a token that is neither a closing
  parenthesis nor the end of input it evaluates one argument expression, appends its
  value and consumes a comma only when one follows; on a closing parenthesis or the end
  of input it stops with the arguments collected. So for any registered function \<open>g\<close>
  under the name \<^verbatim>\<open>f\<close>, the calls \<^verbatim>\<open>f(1 2)\<close> (no comma), \<^verbatim>\<open>f(1, 2)\<close>, \<^verbatim>\<open>f(1, 2,)\<close>
  (trailing comma) and \<^verbatim>\<open>f(1, 2\<close> (no closing parenthesis) all return what \<open>g\<close> returns,
  or throw what it throws, on the argument list \<open>[1, 2]\<close>.
\<close>

theorem C10_function_call_arguments:
  "(currentToken ts i = Inr t \<and> type t \<noteq> PAREN_CLOSE \<and> type t \<noteq> EOF
      \<and> parseOr ts vs fs i = Inr (v, j) \<and> currentToken ts j = Inr t' \<longrightarrow>
      argsLoop ts vs fs args i
        = argsLoop ts vs fs (args @ [v]) (if type t' = COMMA then j + 1 else j))
   \<and> (currentToken ts i = Inr t \<and> (type t = PAREN_CLOSE \<or> type t = EOF) \<longrightarrow>
      argsLoop ts vs fs args i = Inr (args, i))
   \<and> ExpressionEvaluator_evaluate (tokenize ''f(1 2)'') vs [''f'' \<mapsto> g]
       = g [VNum (Fin 1), VNum (Fin 2)]
   \<and> ExpressionEvaluator_evaluate (tokenize ''f(1, 2)'') vs [''f'' \<mapsto> g]
       = g [VNum (Fin 1), VNum (Fin 2)]
   \<and> ExpressionEvaluator_evaluate (tokenize ''f(1, 2,)'') vs [''f'' \<mapsto> g]
       = g [VNum (Fin 1), VNum (Fin 2)]
   \<and> ExpressionEvaluator_evaluate (tokenize ''f(1, 2'') vs [''f'' \<mapsto> g]
       = g [VNum (Fin 1), VNum (Fin 2)]"
  using argsLoop_collect [of ts i t vs fs v j t' args] argsLoop_stop [of ts i t vs fs args]
  by (intro conjI impI call_no_comma call_comma call_trailing_comma call_unclosed)
     (elim conjE, simp)+

text \<open>
  The two steps of claim C10 on the tokens of \<^verbatim>\<open>f(1 2)\<close>: the first argument, with no
  comma after it, and the stop at the closing parenthesis.
\<close>

lemma first_argument_token:
  "currentToken (tokenize ''f(1 2)'') 2 = Inr (Num (Fin 1) 2)"
  by code_simp

lemma first_argument_value:
  "parseOr (tokenize ''f(1 2)'') Map.empty Map.empty 2 = Inr (VNum (Fin 1), 3)"
  by code_simp

lemma second_argument_token:
  "currentToken (tokenize ''f(1 2)'') 3 = Inr (Num (Fin 2) 4)"
  by code_simp

lemma closing_token:
  "currentToken (tokenize ''f(1 2)'') 4 = Inr (Close 5)"
  by code_simp

theorem C10_function_call_arguments_witness:
  "argsLoop (tokenize ''f(1 2)'') Map.empty Map.empty [] 2
     = argsLoop (tokenize ''f(1 2)'') Map.empty Map.empty [VNum (Fin 1)] 3
   \<and> argsLoop (tokenize ''f(1 2)'') Map.empty Map.empty [VNum (Fin 1), VNum (Fin 2)] 4
     = Inr ([VNum (Fin 1), VNum (Fin 2)], 4)"
  using C10_function_call_arguments [of "tokenize ''f(1 2)''" 2 "Num (Fin 1) 2" Map.empty
      Map.empty "VNum (Fin 1)" 3 "Num (Fin 2) 4" "[]"]
    C10_function_call_arguments [of "tokenize ''f(1 2)''" 4 "Close 5" Map.empty
      Map.empty "VNum (Fin 1)" 3 "Num (Fin 2) 4" "[VNum (Fin 1), VNum (Fin 2)]"]
  by (simp add: first_argument_token first_argument_value second_argument_token closing_token)

end
